(* ===== verification/Prelude.thy ===== *)
theory Prelude
  imports Complex_Main
begin

text \<open>
  Shared vocabulary of the development: the named collections of rewrite rules
  that the component theories fill, and generic facts about lists, counting and
  sums that several components use (the label counts of the script, the CSV
  splitter and printer, the result composer).
\<close>

named_theorems script_simps
  "equations that run the Streamlit script model one statement at a time"

named_theorems frame_simps
  "characteristic equations of the pandas frame operations"

named_theorems csv_simps
  "characteristic equations of the CSV reader and writer"

subsection \<open>Counting\<close>

text \<open>
  \<open>(predictions == v).sum()\<close> counts the occurrences of \<open>v\<close>: \<^const>\<open>count_list\<close>.
  Two distinct labels are counted at most once per element, and they account for
  every element exactly when no other label occurs.
\<close>

lemma count_list_le_length: "count_list xs a \<le> length xs"
  by (induction xs) auto

lemma count_list_two_le:
  "a \<noteq> b \<Longrightarrow> count_list xs a + count_list xs b \<le> length xs"
  by (induction xs) auto

lemma count_list_two_eq_length:
  "a \<noteq> b \<Longrightarrow> count_list xs a + count_list xs b = length xs \<longleftrightarrow> set xs \<subseteq> {a, b}"
proof (induction xs)
  case Nil
  then show ?case by simp
next
  case (Cons x xs)
  have le: "count_list xs a + count_list xs b \<le> length xs"
    using Cons.prems by (rule count_list_two_le)
  show ?case
    using Cons le by auto
qed

lemma count_list_zero_iff: "count_list xs a = 0 \<longleftrightarrow> a \<notin> set xs"
  by (induction xs) auto

subsection \<open>Sums as results\<close>

text \<open>
  A computation that may raise is a value of \<open>exc + 'a\<close>, with \<open>Inl\<close> the
  exception. \<open>map_sum id f\<close> transforms the success value and keeps the error.
\<close>

lemma map_sum_id_Inr_iff [simp]:
  "map_sum id f r = Inr y \<longleftrightarrow> (\<exists>x. r = Inr x \<and> y = f x)"
  by (cases r) auto

lemma map_sum_id_Inl_iff [simp]:
  "map_sum id f r = Inl e \<longleftrightarrow> r = Inl e"
  by (cases r) auto

lemma those_length: "those xs = Some ys \<Longrightarrow> length ys = length xs"
  by (induction xs arbitrary: ys) (auto split: option.splits)

lemma those_map_Some [simp]: "those (map Some xs) = Some xs"
  by (induction xs) auto

end
