(* ===== verification/Decimal.thy ===== *)
theory Decimal
  imports Prelude
begin

text \<open>
  Decimal numbers as the CSV text and the displayed metrics carry them. A cell of
  the uploaded file, a probability returned by the classifier and a percentage
  shown by \<open>st.metric\<close> are all finite decimal fractions \<open>m / 10^e\<close>: the value
  \<open>Dec m e\<close>. The theory gives the printer \<^term>\<open>show_decimal\<close>, the parser
  \<^term>\<open>parse_decimal\<close> (the numeric syntax of pandas' C reader, which decides
  whether a field of the upload is a number), their round trip, and the
  \<open>{x:.1%}\<close> formatting of
  \<^verbatim>\<open>src/app.py\<close> lines 106-107.
\<close>

datatype decimal = Dec int nat

definition dec_val :: "decimal \<Rightarrow> rat" where
  "dec_val d = (case d of Dec m e \<Rightarrow> of_int m / 10 ^ e)"

subsection \<open>Digits\<close>

definition is_digit :: "char \<Rightarrow> bool" where
  "is_digit c \<longleftrightarrow> 48 \<le> (of_char c :: nat) \<and> (of_char c :: nat) \<le> 57"

definition digit_char :: "nat \<Rightarrow> char" where
  "digit_char d = char_of (48 + d)"

definition digit_of :: "char \<Rightarrow> nat" where
  "digit_of c = of_char c - 48"

text \<open>Python's \<open>str(n)\<close> for a non-negative integer.\<close>

fun show_nat :: "nat \<Rightarrow> string" where
  "show_nat n =
     (if n < 10 then [digit_char n] else show_nat (n div 10) @ [digit_char (n mod 10)])"

declare show_nat.simps [simp del]

text \<open>The value of a string of digits, most significant first.\<close>

definition digits_val :: "string \<Rightarrow> nat" where
  "digits_val s = foldl (\<lambda>n c. 10 * n + digit_of c) 0 s"

subsection \<open>Printing and parsing\<close>

text \<open>
  \<open>show_decimal (Dec m e)\<close> prints \<open>|m|\<close> with at least \<open>e + 1\<close> digits and puts
  the decimal point before the last \<open>e\<close> of them: \<open>Dec 5 2\<close> is \<open>0.05\<close>,
  \<open>Dec (-125) 1\<close> is \<open>-12.5\<close>, \<open>Dec 1 0\<close> is \<open>1\<close>.
\<close>

definition pad_zeros :: "nat \<Rightarrow> string \<Rightarrow> string" where
  "pad_zeros k s = replicate (k - length s) CHR ''0'' @ s"

definition place_point :: "nat \<Rightarrow> string \<Rightarrow> string" where
  "place_point e s =
     (if e = 0 then s else take (length s - e) s @ CHR ''.'' # drop (length s - e) s)"

definition show_decimal :: "decimal \<Rightarrow> string" where
  "show_decimal d = (case d of Dec m e \<Rightarrow>
     (if m < 0 then ''-'' else []) @ place_point e (pad_zeros (Suc e) (show_nat (nat \<bar>m\<bar>))))"

text \<open>
  The parser is that of pandas' C reader for a numeric field (\<open>xstrtod\<close>):
  surrounding blanks, an optional sign, digits with an optional point (at least
  one digit on either side of it), and an optional exponent \<open>e\<close> or \<open>E\<close> with an
  optional sign and at least one digit. \<open>1e-5\<close>, \<open>+1\<close>, \<open>.5\<close> and \<open>5.\<close> are
  numbers; anything else is not.
\<close>

definition is_blank :: "char \<Rightarrow> bool" where
  "is_blank c \<longleftrightarrow> c = CHR '' '' \<or> c = CHR 0x09"

definition strip_blanks :: "string \<Rightarrow> string" where
  "strip_blanks s = rev (dropWhile is_blank (rev (dropWhile is_blank s)))"

definition digits_opt :: "string \<Rightarrow> nat option" where
  "digits_opt s = (if s \<noteq> [] \<and> list_all is_digit s then Some (digits_val s) else None)"

definition parse_mantissa :: "string \<Rightarrow> decimal option" where
  "parse_mantissa s =
     (let a = takeWhile is_digit s; b = dropWhile is_digit s in
      case b of
        [] \<Rightarrow> if a = [] then None else Some (Dec (int (digits_val a)) 0)
      | c # f \<Rightarrow>
          if c = CHR ''.'' \<and> list_all is_digit f \<and> (a \<noteq> [] \<or> f \<noteq> [])
          then Some (Dec (int (digits_val (a @ f))) (length f))
          else None)"

definition parse_exponent :: "string \<Rightarrow> int option" where
  "parse_exponent s =
     (case s of
        c # t \<Rightarrow>
          if c = CHR ''-'' then map_option (\<lambda>n. - int n) (digits_opt t)
          else if c = CHR ''+'' then map_option int (digits_opt t)
          else map_option int (digits_opt s)
      | [] \<Rightarrow> None)"

text \<open>\<open>Dec m e\<close> times \<open>10^x\<close>, kept exact.\<close>

definition scale10 :: "decimal \<Rightarrow> int \<Rightarrow> decimal" where
  "scale10 d x = (case d of Dec m e \<Rightarrow>
     if x \<le> int e then Dec m (nat (int e - x)) else Dec (m * 10 ^ nat (x - int e)) 0)"

definition is_exp_mark :: "char \<Rightarrow> bool" where
  "is_exp_mark c \<longleftrightarrow> c = CHR ''e'' \<or> c = CHR ''E''"

definition parse_unsigned :: "string \<Rightarrow> decimal option" where
  "parse_unsigned s =
     (case dropWhile (\<lambda>c. \<not> is_exp_mark c) s of
        [] \<Rightarrow> parse_mantissa s
      | _ # x \<Rightarrow>
          (case (parse_mantissa (takeWhile (\<lambda>c. \<not> is_exp_mark c) s), parse_exponent x) of
             (Some d, Some k) \<Rightarrow> Some (scale10 d k)
           | _ \<Rightarrow> None))"

definition dec_neg :: "decimal \<Rightarrow> decimal" where
  "dec_neg d = (case d of Dec m e \<Rightarrow> Dec (- m) e)"

definition parse_signed :: "string \<Rightarrow> decimal option" where
  "parse_signed s =
     (case s of
        c # t \<Rightarrow>
          if c = CHR ''-'' then map_option dec_neg (parse_unsigned t)
          else if c = CHR ''+'' then parse_unsigned t
          else parse_unsigned s
      | [] \<Rightarrow> None)"

definition parse_decimal :: "string \<Rightarrow> decimal option" where
  "parse_decimal s = parse_signed (strip_blanks s)"

subsection \<open>Percentages\<close>

text \<open>
  \<open>f"{x:.1%}"\<close> multiplies by 100 and prints in fixed notation with one
  fractional digit, rounding half to even: the shown value is the decimal
  \<open>Dec (round_half_even (1000 * x)) 1\<close> followed by a percent sign.
\<close>

definition round_half_even :: "rat \<Rightarrow> int" where
  "round_half_even x =
     (let f = \<lfloor>x\<rfloor>; r = x - of_int f in
      if r < 1/2 then f else if 1/2 < r then f + 1 else if even f then f else f + 1)"

definition pct_decimal :: "rat \<Rightarrow> decimal" where
  "pct_decimal q = Dec (round_half_even (1000 * q)) 1"

definition fmt_pct :: "rat \<Rightarrow> string" where
  "fmt_pct q = show_decimal (pct_decimal q) @ ''%''"

subsection \<open>Digit lemmas\<close>

lemma digit_of_digit_char [simp]: "d < 10 \<Longrightarrow> digit_of (digit_char d) = d"
  by (simp add: digit_of_def digit_char_def)

lemma is_digit_digit_char [simp]: "d < 10 \<Longrightarrow> is_digit (digit_char d)"
  by (simp add: is_digit_def digit_char_def)

lemma not_is_digit_sign [simp]: "\<not> is_digit CHR ''-''" "\<not> is_digit CHR ''.''" "\<not> is_digit CHR ''+''"
  by (simp_all add: is_digit_def)

lemma is_digit_not_mark [simp]: "is_digit c \<Longrightarrow> \<not> is_exp_mark c \<and> \<not> is_blank c"
  by (auto simp: is_digit_def is_exp_mark_def is_blank_def)

lemma point_not_mark [simp]: "\<not> is_exp_mark CHR ''.''" "\<not> is_blank CHR ''.''" "\<not> is_blank CHR ''-''"
  by (simp_all add: is_exp_mark_def is_blank_def)

lemma is_digit_zero [simp]: "is_digit CHR ''0''" and digit_of_zero [simp]: "digit_of CHR ''0'' = 0"
  by (simp_all add: is_digit_def digit_of_def)

lemma digits_val_snoc [simp]: "digits_val (s @ [c]) = 10 * digits_val s + digit_of c"
  by (simp add: digits_val_def)

lemma digits_val_Nil [simp]: "digits_val [] = 0" and digits_val_single [simp]: "digits_val [c] = digit_of c"
  by (simp_all add: digits_val_def)

lemma digits_val_append:
  "digits_val (xs @ ys) = digits_val xs * 10 ^ length ys + digits_val ys"
proof (induction ys rule: rev_induct)
  case Nil
  then show ?case by simp
next
  case (snoc y ys)
  then show ?case
    by (simp only: append_assoc [symmetric] digits_val_snoc) (simp add: algebra_simps)
qed

lemma digits_val_zeros [simp]: "digits_val (replicate k CHR ''0'' @ s) = digits_val s"
proof -
  have "digits_val (replicate k CHR ''0'') = 0"
    by (induction k) (simp_all add: replicate_append_same [symmetric] del: replicate_append_same)
  then show ?thesis by (simp add: digits_val_append)
qed

lemma show_nat_Nil [simp]: "show_nat n \<noteq> []"
  by (subst show_nat.simps) simp

lemma show_nat_digits: "list_all is_digit (show_nat n)"
  by (induction n rule: show_nat.induct) (subst show_nat.simps, simp)

lemma digits_val_show_nat [simp]: "digits_val (show_nat n) = n"
  by (induction n rule: show_nat.induct) (subst show_nat.simps, simp)

lemma pad_zeros_digits:
  "list_all is_digit s \<Longrightarrow> list_all is_digit (pad_zeros k s)"
  by (auto simp: pad_zeros_def list_all_iff)

lemma length_pad_zeros: "length (pad_zeros k s) = max k (length s)"
  by (simp add: pad_zeros_def)

lemma digits_val_pad_zeros [simp]: "digits_val (pad_zeros k s) = digits_val s"
  by (simp add: pad_zeros_def)

subsection \<open>Round trip of the number format\<close>

lemma parse_unsigned_no_exp:
  "\<forall>c \<in> set s. \<not> is_exp_mark c \<Longrightarrow> parse_unsigned s = parse_mantissa s"
  by (simp add: parse_unsigned_def dropWhile_eq_Nil_conv [THEN iffD2])

lemma parse_unsigned_digits:
  "s \<noteq> [] \<Longrightarrow> list_all is_digit s \<Longrightarrow> parse_unsigned s = Some (Dec (int (digits_val s)) 0)"
  by (simp add: parse_unsigned_no_exp parse_mantissa_def list_all_iff takeWhile_eq_all_conv [THEN iffD2]
      dropWhile_eq_Nil_conv [THEN iffD2])

lemma parse_unsigned_point:
  assumes "a \<noteq> []" "f \<noteq> []" "list_all is_digit a" "list_all is_digit f"
  shows "parse_unsigned (a @ CHR ''.'' # f) = Some (Dec (int (digits_val (a @ f))) (length f))"
proof -
  have "\<forall>c \<in> set (a @ CHR ''.'' # f). \<not> is_exp_mark c"
    using assms by (auto simp: list_all_iff)
  then show ?thesis
    using assms by (simp add: parse_unsigned_no_exp parse_mantissa_def list_all_iff)
qed

lemma parse_unsigned_place_point:
  assumes "list_all is_digit s" "e < length s"
  shows "parse_unsigned (place_point e s) = Some (Dec (int (digits_val s)) e)"
proof (cases "e = 0")
  case True
  with assms show ?thesis by (simp add: place_point_def parse_unsigned_digits)
next
  case False
  let ?a = "take (length s - e) s" and ?f = "drop (length s - e) s"
  have "list_all is_digit ?a" "list_all is_digit ?f"
    using assms(1) by (auto simp: list_all_iff dest: in_set_takeD in_set_dropD)
  moreover have "?a \<noteq> []" "?f \<noteq> []" "length ?f = e"
    using assms(2) False by auto
  ultimately show ?thesis
    using False by (simp add: place_point_def parse_unsigned_point)
qed

lemma parse_signed_unsigned:
  "s \<noteq> [] \<Longrightarrow> is_digit (hd s) \<Longrightarrow> parse_signed s = parse_unsigned s"
  by (cases s) (auto simp: parse_signed_def)

lemma hd_place_point:
  "e < length s \<Longrightarrow> place_point e s \<noteq> [] \<and> hd (place_point e s) = hd s"
  by (cases s) (auto simp: place_point_def)

lemma round_half_even_dist: "\<bar>of_int (round_half_even x) - x\<bar> \<le> 1/2"
proof -
  have "of_int \<lfloor>x\<rfloor> \<le> x" "x < of_int \<lfloor>x\<rfloor> + 1"
    by linarith+
  then show ?thesis
    by (auto simp: round_half_even_def Let_def)
qed

lemma round_half_even_mono_bounds:
  assumes "of_int a \<le> x" "x \<le> of_int b"
  shows "a \<le> round_half_even x \<and> round_half_even x \<le> b"
proof -
  have "\<bar>of_int (round_half_even x) - x\<bar> \<le> 1/2"
    by (rule round_half_even_dist)
  then have "of_int a - 1/2 \<le> (of_int (round_half_even x) :: rat)"
    and "(of_int (round_half_even x) :: rat) \<le> of_int b + 1/2"
    using assms by linarith+
  then have "of_int a < (of_int (round_half_even x + 1) :: rat)"
    and "(of_int (round_half_even x) :: rat) < of_int (b + 1)"
    by simp_all
  then show ?thesis
    by (simp only: of_int_less_iff) linarith
qed

lemma signed_roundtrip: "parse_signed (show_decimal d) = Some d"
proof (cases d)
  case (Dec m e)
  let ?s = "pad_zeros (Suc e) (show_nat (nat \<bar>m\<bar>))"
  have digits: "list_all is_digit ?s"
    by (simp add: pad_zeros_digits show_nat_digits)
  have len: "e < length ?s"
    by (simp add: length_pad_zeros)
  have pp: "parse_unsigned (place_point e ?s) = Some (Dec \<bar>m\<bar> e)"
    using parse_unsigned_place_point [OF digits len] by simp
  have ne: "?s \<noteq> []"
    using len by auto
  then have "is_digit (hd ?s)"
    using digits by (cases ?s) simp_all
  then have hd: "place_point e ?s \<noteq> [] \<and> is_digit (hd (place_point e ?s))"
    using hd_place_point [OF len] by simp
  show ?thesis
  proof (cases "m < 0")
    case True
    then show ?thesis
      using Dec pp by (simp add: show_decimal_def parse_signed_def dec_neg_def)
  next
    case False
    then have "show_decimal d = place_point e ?s"
      using Dec by (simp add: show_decimal_def)
    then show ?thesis
      using Dec False pp hd by (simp add: parse_signed_unsigned)
  qed
qed

lemma set_place_point: "set (place_point e s) \<subseteq> insert CHR ''.'' (set s)"
  by (auto simp: place_point_def dest: in_set_takeD in_set_dropD)

lemma show_decimal_chars:
  "c \<in> set (show_decimal d) \<Longrightarrow> is_digit c \<or> c = CHR ''.'' \<or> c = CHR ''-''"
proof (cases d)
  case (Dec m e)
  let ?s = "pad_zeros (Suc e) (show_nat (nat \<bar>m\<bar>))"
  have "list_all is_digit ?s"
    by (simp add: pad_zeros_digits show_nat_digits)
  moreover assume "c \<in> set (show_decimal d)"
  ultimately show ?thesis
    using Dec set_place_point [of e ?s]
    by (auto simp: show_decimal_def list_all_iff split: if_splits)
qed

lemma show_decimal_not_Nil: "show_decimal d \<noteq> []"
proof (cases d)
  case (Dec m e)
  have "pad_zeros (Suc e) (show_nat (nat \<bar>m\<bar>)) \<noteq> []"
    by (simp add: pad_zeros_def)
  then show ?thesis
    using Dec by (auto simp: show_decimal_def place_point_def)
qed

lemma strip_blanks_id:
  assumes "\<forall>c \<in> set s. \<not> is_blank c"
  shows "strip_blanks s = s"
proof -
  have dw: "dropWhile is_blank xs = xs" if "\<forall>c \<in> set xs. \<not> is_blank c" for xs
    using that by (cases xs) auto
  show ?thesis
    using assms by (simp add: strip_blanks_def dw)
qed

lemma decimal_roundtrip: "parse_decimal (show_decimal d) = Some d"
proof -
  have "\<forall>c \<in> set (show_decimal d). \<not> is_blank c"
    using show_decimal_chars by fastforce
  then show ?thesis
    by (simp add: parse_decimal_def strip_blanks_id signed_roundtrip)
qed

text \<open>
  The reader's numeric syntax on the forms pandas accepts beyond plain
  fixed-point text.
\<close>

lemma parse_decimal_forms:
  "parse_decimal ''1e-5'' = Some (Dec 1 5)" "parse_decimal ''2.5E3'' = Some (Dec 2500 0)"
  "parse_decimal ''+1'' = Some (Dec 1 0)" "parse_decimal ''.5'' = Some (Dec 5 1)"
  "parse_decimal ''5.'' = Some (Dec 5 0)" "parse_decimal '' -0.25 '' = Some (Dec (-25) 2)"
  "parse_decimal ''1e'' = None" "parse_decimal ''.'' = None" "parse_decimal ''abc'' = None"
  by code_simp+

text \<open>
  C17. The percentage shown by a metric is the exact ratio rounded to one
  fractional digit: it is within 0.05 percentage points of \<open>100 * q\<close>, and for
  a ratio between 0 and 1 it lies between 0.0% and 100.0%.
\<close>

theorem pct_decimal_bounds:
  "\<bar>dec_val (pct_decimal q) - 100 * q\<bar> \<le> 1/20 \<and>
   (0 \<le> q \<and> q \<le> 1 \<longrightarrow> 0 \<le> dec_val (pct_decimal q) \<and> dec_val (pct_decimal q) \<le> 100)"
proof -
  let ?r = "round_half_even (1000 * q)"
  have val: "dec_val (pct_decimal q) = of_int ?r / 10"
    by (simp add: pct_decimal_def dec_val_def)
  have "\<bar>of_int ?r - 1000 * q\<bar> \<le> 1/2"
    by (rule round_half_even_dist)
  then have dist: "\<bar>of_int ?r / 10 - 100 * q\<bar> \<le> 1/20"
    by (simp add: abs_le_iff field_simps)
  have range: "0 \<le> q \<and> q \<le> 1 \<longrightarrow> 0 \<le> ?r \<and> ?r \<le> 1000"
    using round_half_even_mono_bounds [of 0 "1000 * q" 1000] by simp
  then have "0 \<le> q \<and> q \<le> 1 \<longrightarrow> 0 \<le> of_int ?r / (10 :: rat) \<and> of_int ?r / (10 :: rat) \<le> 100"
    by simp
  then show ?thesis
    unfolding val using dist by blast
qed

theorem pct_decimal_bounds_witness:
  "\<bar>dec_val (pct_decimal (1/3)) - 100 * (1/3)\<bar> \<le> 1/20 \<and>
   0 \<le> dec_val (pct_decimal (1/3)) \<and> dec_val (pct_decimal (1/3)) \<le> 100"
  using pct_decimal_bounds [of "1/3"] by simp

end
