(* ===== verification/Frame.thy ===== *)
theory Frame
  imports Decimal
begin

text \<open>
  The Python values the script manipulates: the exceptions it catches and
  surfaces (\<open>str(e)\<close> is \<^term>\<open>exc_str\<close>), and the pandas data frames. A frame
  is its column labels and its rows; a cell is a number, NaN, or a text
  field (pandas keeps a field that is neither a number nor a missing-value
  marker as a string). The operations are those \<^verbatim>\<open>src/app.py\<close> calls, with the
  pandas behaviour at the call site: \<open>df.head()\<close> (line 73),
  \<open>pd.DataFrame(probabilities, columns=...)\<close> (lines 88-90), the column
  assignment \<open>results["Prediction"] = predictions\<close> (line 91) and
  \<open>pd.concat([df, results], axis=1)\<close> (line 93), which aligns the two frames
  on their row index and fills missing rows with NaN.
\<close>

datatype exc =
    ValueError string
  | ParserError string
  | EmptyDataError
  | ZeroDivisionError
  | FileNotFoundError string
  | Exception string

fun exc_str :: "exc \<Rightarrow> string" where
  "exc_str (ValueError m) = m"
| "exc_str (ParserError m) = m"
| "exc_str EmptyDataError = ''No columns to parse from file''"
| "exc_str ZeroDivisionError = ''division by zero''"
| "exc_str (FileNotFoundError p) =
     ''[Errno 2] No such file or directory: '' @ CHR 0x27 # p @ [CHR 0x27]"
| "exc_str (Exception m) = m"

datatype cell = Num decimal | NaN | Text string

record frame =
  columns :: "string list"
  rows :: "cell list list"

definition n_rows :: "frame \<Rightarrow> nat" where
  "n_rows f = length (rows f)"

definition n_cols :: "frame \<Rightarrow> nat" where
  "n_cols f = length (columns f)"

text \<open>Every row has one cell per column.\<close>

definition wf_frame :: "frame \<Rightarrow> bool" where
  "wf_frame f \<longleftrightarrow> list_all (\<lambda>r. length r = n_cols f) (rows f)"

text \<open>\<open>df.head()\<close>: the first five rows (pandas' default \<open>n = 5\<close>).\<close>

definition head_frame :: "nat \<Rightarrow> frame \<Rightarrow> frame" where
  "head_frame n f = f\<lparr>rows := take n (rows f)\<rparr>"

text \<open>
  \<open>pd.DataFrame(arr, columns=names)\<close> for a two-dimensional array: the array's
  width must be the number of names, otherwise pandas raises \<open>ValueError\<close>.
\<close>

definition frame_of_array :: "string list \<Rightarrow> decimal list list \<Rightarrow> exc + frame" where
  "frame_of_array names arr =
     (if list_all (\<lambda>r. length r = length names) arr
      then Inr \<lparr>columns = names, rows = map (map Num) arr\<rparr>
      else Inl (ValueError (''Shape of passed values is ('' @ show_nat (length arr) @ '', ''
              @ show_nat (case arr of [] \<Rightarrow> 0 | r # _ \<Rightarrow> length r) @ ''), indices imply (''
              @ show_nat (length arr) @ '', '' @ show_nat (length names) @ '')'')))"

text \<open>
  \<open>f[name] = vs\<close> for a new column name: the values must be as many as the
  rows, otherwise pandas raises \<open>ValueError\<close>.
\<close>

definition set_column :: "string \<Rightarrow> cell list \<Rightarrow> frame \<Rightarrow> exc + frame" where
  "set_column name vs f =
     (if length vs = n_rows f
      then Inr (f\<lparr>columns := columns f @ [name], rows := map2 (\<lambda>r v. r @ [v]) (rows f) vs\<rparr>)
      else Inl (ValueError (''Length of values ('' @ show_nat (length vs)
              @ '') does not match length of index ('' @ show_nat (n_rows f) @ '')'')))"

text \<open>
  \<open>pd.concat([a, b], axis=1)\<close> for two frames with the default index
  \<open>0, 1, ...\<close>: the outer join of the indexes is \<open>0 .. max - 1\<close>, and a row that
  one frame lacks is NaN in that frame's columns.
\<close>

definition pad_rows :: "nat \<Rightarrow> nat \<Rightarrow> cell list list \<Rightarrow> cell list list" where
  "pad_rows n w rs = rs @ replicate (n - length rs) (replicate w NaN)"

definition concat_axis1 :: "frame \<Rightarrow> frame \<Rightarrow> frame" where
  "concat_axis1 a b =
     (let n = max (n_rows a) (n_rows b) in
      \<lparr>columns = columns a @ columns b,
       rows = map2 (@) (pad_rows n (n_cols a) (rows a)) (pad_rows n (n_cols b) (rows b))\<rparr>)"

subsection \<open>Characteristic equations\<close>

lemma head_frame_simps [frame_simps]:
  "columns (head_frame n f) = columns f" "rows (head_frame n f) = take n (rows f)"
  by (simp_all add: head_frame_def)

lemma wf_head_frame: "wf_frame f \<Longrightarrow> wf_frame (head_frame n f)"
  by (auto simp: wf_frame_def n_cols_def head_frame_def list_all_iff dest: in_set_takeD)

lemma frame_of_array_Inr [frame_simps]:
  "list_all (\<lambda>r. length r = length names) arr \<Longrightarrow>
   frame_of_array names arr = Inr \<lparr>columns = names, rows = map (map Num) arr\<rparr>"
  by (simp add: frame_of_array_def)

lemma frame_of_array_wf:
  "frame_of_array names arr = Inr f \<Longrightarrow> wf_frame f"
  by (auto simp: frame_of_array_def wf_frame_def n_cols_def list_all_iff split: if_splits)

lemma frame_of_array_Inl_iff:
  "(\<exists>e. frame_of_array names arr = Inl e) \<longleftrightarrow> \<not> list_all (\<lambda>r. length r = length names) arr"
  by (simp add: frame_of_array_def)

lemma set_column_Inr [frame_simps]:
  "length vs = n_rows f \<Longrightarrow>
   set_column name vs f =
     Inr (f\<lparr>columns := columns f @ [name], rows := map2 (\<lambda>r v. r @ [v]) (rows f) vs\<rparr>)"
  by (simp add: set_column_def)

lemma set_column_wf:
  assumes "wf_frame f" "set_column name vs f = Inr g"
  shows "wf_frame g"
proof -
  have "length vs = n_rows f" and g: "g = f\<lparr>columns := columns f @ [name],
      rows := map2 (\<lambda>r v. r @ [v]) (rows f) vs\<rparr>"
    using assms(2) by (simp_all add: set_column_def split: if_splits)
  then show ?thesis
    using assms(1) by (auto simp: wf_frame_def n_cols_def list_all_iff set_zip)
qed

lemma pad_rows_id [simp]: "length rs = n \<Longrightarrow> pad_rows n w rs = rs"
  by (simp add: pad_rows_def)

lemma length_pad_rows [simp]: "length (pad_rows n w rs) = max n (length rs)"
  by (simp add: pad_rows_def)

lemma concat_axis1_same_length [frame_simps]:
  "n_rows a = n_rows b \<Longrightarrow>
   concat_axis1 a b = \<lparr>columns = columns a @ columns b, rows = map2 (@) (rows a) (rows b)\<rparr>"
  by (simp add: concat_axis1_def n_rows_def)

lemma n_rows_concat_axis1: "n_rows (concat_axis1 a b) = max (n_rows a) (n_rows b)"
  by (simp add: concat_axis1_def n_rows_def Let_def)

lemma concat_axis1_row_beyond:
  assumes "n_rows b \<le> i" "i < n_rows a" "wf_frame b"
  shows "rows (concat_axis1 a b) ! i = rows a ! i @ replicate (n_cols b) NaN"
proof -
  have "max (n_rows a) (n_rows b) = n_rows a"
    using assms by simp
  then show ?thesis
    using assms by (simp add: concat_axis1_def n_rows_def pad_rows_def nth_append Let_def)
qed

lemma wf_pad_rows:
  "list_all (\<lambda>r. length r = w) rs \<Longrightarrow> list_all (\<lambda>r. length r = w) (pad_rows n w rs)"
  by (auto simp: pad_rows_def list_all_iff)

lemma wf_concat_axis1:
  assumes "wf_frame a" "wf_frame b"
  shows "wf_frame (concat_axis1 a b)"
proof -
  let ?n = "max (n_rows a) (n_rows b)"
  have "list_all (\<lambda>r. length r = n_cols a) (pad_rows ?n (n_cols a) (rows a))"
    and "list_all (\<lambda>r. length r = n_cols b) (pad_rows ?n (n_cols b) (rows b))"
    using assms by (simp_all add: wf_frame_def wf_pad_rows)
  then show ?thesis
    by (fastforce simp: concat_axis1_def wf_frame_def n_cols_def list_all_iff set_zip Let_def)
qed

end
