(* ===== verification/Csv.thy ===== *)
theory Csv
  imports Frame
begin

text \<open>
  The Tabular Loader and the CSV writer. \<^verbatim>\<open>src/app.py\<close> reads the upload with
  \<open>pd.read_csv(uploaded_file)\<close> (line 71) and exports with
  \<open>output.to_csv(index=False)\<close> (line 120). Both are pandas with default
  arguments, modelled from pandas' behaviour rather than the spec's stricter
  contract (sections 4.1 and 6). Lines are comma-separated. The first non-blank
  line is the header (\<open>header="infer"\<close>). Blank lines are skipped but keep
  their line numbers. A data line with fewer fields than the header is filled
  with NaN; one with more is the C tokenizer's \<open>ParserError\<close>. A field is NaN
  when it is one of pandas' NA markers, a number when the C reader's syntax
  accepts it, and text otherwise. A file with no line is \<open>EmptyDataError\<close>.
  The writer prints the header and one line per row, each ended by a newline,
  with NaN as the empty field.
\<close>

subsection \<open>Splitting and joining\<close>

text \<open>Python's \<open>s.split(c)\<close> and \<open>c.join(xs)\<close> for a one-character separator.\<close>

fun split_on :: "'a \<Rightarrow> 'a list \<Rightarrow> 'a list list" where
  "split_on c [] = [[]]"
| "split_on c (x # xs) =
     (if x = c then [] # split_on c xs
      else (let r = split_on c xs in (x # hd r) # tl r))"

fun join_with :: "'a \<Rightarrow> 'a list list \<Rightarrow> 'a list" where
  "join_with c [] = []"
| "join_with c [x] = x"
| "join_with c (x # y # zs) = x @ c # join_with c (y # zs)"

subsection \<open>Reading\<close>

text \<open>
  pandas' default missing-value markers (\<open>na_values\<close>): a field equal to one of
  them is NaN. Any other field is a number when the numeric syntax accepts it,
  and otherwise stays text.
\<close>

definition na_strings :: "string list" where
  "na_strings =
     [[], ''#N/A'', ''#N/A N/A'', ''#NA'', ''-1.#IND'', ''-1.#QNAN'', ''-NaN'', ''-nan'',
      ''1.#IND'', ''1.#QNAN'', ''<NA>'', ''N/A'', ''NA'', ''NULL'', ''NaN'', ''None'',
      ''n/a'', ''nan'', ''null'']"

definition parse_cell :: "string \<Rightarrow> cell" where
  "parse_cell s =
     (if s \<in> set na_strings then NaN
      else (case parse_decimal s of Some d \<Rightarrow> Num d | None \<Rightarrow> Text s))"

text \<open>
  The data lines, each with its line number in the file (blank lines count).
  A line with more fields than the header is the C tokenizer's error; a line
  with fewer is filled up with NaN.
\<close>

fun parse_rows :: "nat \<Rightarrow> (nat \<times> string) list \<Rightarrow> exc + cell list list" where
  "parse_rows w [] = Inr []"
| "parse_rows w ((k, l) # ls) =
     (let fs = split_on CHR '','' l in
      if w < length fs
      then Inl (ParserError (''Error tokenizing data. C error: Expected '' @ show_nat w
             @ '' fields in line '' @ show_nat k @ '', saw '' @ show_nat (length fs) @ ''\<newline>''))
      else map_sum id (Cons (map parse_cell fs @ replicate (w - length fs) NaN)) (parse_rows w ls))"

definition read_csv :: "string \<Rightarrow> exc + frame" where
  "read_csv s =
     (case filter (\<lambda>(k, l). l \<noteq> []) (enumerate 1 (split_on CHR ''\<newline>'' s)) of
        [] \<Rightarrow> Inl EmptyDataError
      | (_, h) # ls \<Rightarrow>
          (let names = split_on CHR '','' h in
           map_sum id (\<lambda>rs. \<lparr>columns = names, rows = rs\<rparr>) (parse_rows (length names) ls)))"

subsection \<open>Writing\<close>

definition show_cell :: "cell \<Rightarrow> string" where
  "show_cell c = (case c of Num d \<Rightarrow> show_decimal d | NaN \<Rightarrow> [] | Text s \<Rightarrow> s)"

definition csv_line :: "string list \<Rightarrow> string" where
  "csv_line fs = join_with CHR '','' fs @ [CHR ''\<newline>'']"

definition to_csv :: "frame \<Rightarrow> string" where
  "to_csv f = concat (map csv_line (columns f # map (map show_cell) (rows f)))"

text \<open>
  What the format carries unquoted: labels and text fields with no comma and no
  newline, text fields that read back as text, and at least two columns, so
  that no line of the file is blank.
\<close>

definition csv_names_ok :: "string list \<Rightarrow> bool" where
  "csv_names_ok names \<longleftrightarrow>
     2 \<le> length names \<and> list_all (\<lambda>n. CHR '','' \<notin> set n \<and> CHR ''\<newline>'' \<notin> set n) names"

definition csv_cell_ok :: "cell \<Rightarrow> bool" where
  "csv_cell_ok c \<longleftrightarrow>
     (case c of
        Text s \<Rightarrow> parse_cell s = Text s \<and> CHR '','' \<notin> set s \<and> CHR ''\<newline>'' \<notin> set s
      | _ \<Rightarrow> True)"

definition csv_rows_ok :: "frame \<Rightarrow> bool" where
  "csv_rows_ok f \<longleftrightarrow> list_all (list_all csv_cell_ok) (rows f)"

subsection \<open>Splitting after joining\<close>

lemma split_on_no_sep: "c \<notin> set x \<Longrightarrow> split_on c x = [x]"
  by (induction x) auto

lemma split_on_append_sep: "c \<notin> set x \<Longrightarrow> split_on c (x @ c # y) = x # split_on c y"
  by (induction x) auto

lemma split_on_join_with:
  "xs \<noteq> [] \<Longrightarrow> list_all (\<lambda>x. c \<notin> set x) xs \<Longrightarrow> split_on c (join_with c xs) = xs"
  by (induction c xs rule: join_with.induct) (auto simp: split_on_no_sep split_on_append_sep)

lemma split_on_lines:
  "list_all (\<lambda>l. c \<notin> set l) ls \<Longrightarrow> split_on c (concat (map (\<lambda>l. l @ [c]) ls)) = ls @ [[]]"
  by (induction ls) (auto simp: split_on_append_sep)

lemma set_join_with: "set (join_with c xs) \<subseteq> insert c (\<Union>x \<in> set xs. set x)"
  by (induction c xs rule: join_with.induct) auto

lemma sep_in_join_with: "2 \<le> length xs \<Longrightarrow> c \<in> set (join_with c xs)"
  by (induction c xs rule: join_with.induct) auto

subsection \<open>Cells and rows read back\<close>

lemma show_decimal_not_na: "show_decimal d \<notin> set na_strings"
proof
  assume na: "show_decimal d \<in> set na_strings"
  have "\<forall>s \<in> set na_strings. s = [] \<or> (\<exists>c \<in> set s. \<not> is_digit c \<and> c \<noteq> CHR ''.'' \<and> c \<noteq> CHR ''-'')"
    by (simp add: na_strings_def is_digit_def)
  then show False
    using na show_decimal_not_Nil [of d] show_decimal_chars [of _ d] by blast
qed

lemma show_cell_no_sep [csv_simps]:
  "csv_cell_ok c \<Longrightarrow> CHR '','' \<notin> set (show_cell c) \<and> CHR ''\<newline>'' \<notin> set (show_cell c)"
  using show_decimal_chars [of _ "case c of Num d \<Rightarrow> d"]
  by (cases c; fastforce simp: show_cell_def csv_cell_ok_def is_digit_def)

lemma nil_na_string [simp]: "[] \<in> set na_strings"
  by (simp add: na_strings_def)

lemma parse_cell_show_cell [csv_simps]: "csv_cell_ok c \<Longrightarrow> parse_cell (show_cell c) = c"
  by (cases c) (simp_all add: show_cell_def parse_cell_def csv_cell_ok_def show_decimal_not_na
      decimal_roundtrip)

lemma csv_cell_ok_parse_cell:
  "CHR '','' \<notin> set x \<Longrightarrow> CHR ''\<newline>'' \<notin> set x \<Longrightarrow> csv_cell_ok (parse_cell x)"
  by (auto simp: parse_cell_def csv_cell_ok_def split: option.splits)

lemma parse_rows_printed:
  assumes "list_all (\<lambda>r. length r = w \<and> list_all csv_cell_ok r) rs" "1 \<le> w"
    "map snd ls = map (\<lambda>r. join_with CHR '','' (map show_cell r)) rs"
  shows "parse_rows w ls = Inr rs"
  using assms
proof (induction rs arbitrary: ls)
  case Nil
  then show ?case by simp
next
  case (Cons r rs)
  obtain k l ls' where ls: "ls = (k, l) # ls'" and l: "l = join_with CHR '','' (map show_cell r)"
    and ls': "map snd ls' = map (\<lambda>r. join_with CHR '','' (map show_cell r)) rs"
    using Cons.prems(3) by (cases ls) auto
  have ok: "length r = w" "list_all csv_cell_ok r"
    using Cons.prems(1) by simp_all
  have "map show_cell r \<noteq> []" "list_all (\<lambda>x. CHR '','' \<notin> set x) (map show_cell r)"
    using ok Cons.prems(2) show_cell_no_sep by (auto simp: list_all_iff)
  then have "split_on CHR '','' l = map show_cell r"
    unfolding l by (rule split_on_join_with)
  moreover have "map parse_cell (map show_cell r) = r"
    using ok(2) by (simp add: list_all_iff parse_cell_show_cell map_idI)
  ultimately show ?case
    using Cons.IH [OF _ Cons.prems(2) ls'] Cons.prems(1) ok(1) ls by simp
qed

lemma to_csv_lines:
  "to_csv f = concat (map (\<lambda>l. l @ [CHR ''\<newline>''])
     (join_with CHR '','' (columns f) # map (\<lambda>r. join_with CHR '','' (map show_cell r)) (rows f)))"
  by (simp add: to_csv_def csv_line_def o_def)

lemma map_snd_filter_enumerate:
  "map snd (filter (\<lambda>(k, l). P l) (enumerate n xs)) = filter P xs"
  by (induction xs arbitrary: n) auto

lemma read_csv_to_csv_frame:
  assumes "wf_frame f" "csv_names_ok (columns f)" "csv_rows_ok f"
  shows "read_csv (to_csv f) = Inr f"
proof -
  let ?h = "join_with CHR '','' (columns f)"
  let ?ls = "map (\<lambda>r. join_with CHR '','' (map show_cell r)) (rows f)"
  have wide: "2 \<le> n_cols f" and names: "list_all (\<lambda>n. CHR '','' \<notin> set n \<and> CHR ''\<newline>'' \<notin> set n) (columns f)"
    using assms(2) by (simp_all add: csv_names_ok_def n_cols_def)
  have rows_ok: "list_all (\<lambda>r. length r = n_cols f \<and> list_all csv_cell_ok r) (rows f)"
    using assms(1,3) by (simp add: wf_frame_def csv_rows_ok_def list_all_iff)
  have no_nl: "list_all (\<lambda>l. CHR ''\<newline>'' \<notin> set l) (?h # ?ls)"
    using names rows_ok set_join_with [of "CHR '',''"] show_cell_no_sep
    by (fastforce simp: list_all_iff)
  have "\<forall>xs. 2 \<le> length xs \<longrightarrow> join_with CHR '','' xs \<noteq> []"
    using sep_in_join_with by (metis empty_iff empty_set)
  then have non_blank: "list_all (\<lambda>l. l \<noteq> []) (?h # ?ls)"
    using wide rows_ok by (auto simp: list_all_iff n_cols_def)
  have "split_on CHR ''\<newline>'' (to_csv f) = (?h # ?ls) @ [[]]"
    unfolding to_csv_lines by (rule split_on_lines [OF no_nl])
  moreover have "filter (\<lambda>l. l \<noteq> []) ((?h # ?ls) @ [[]]) = ?h # ?ls"
    using non_blank by (simp add: list_all_iff filter_True del: append_Cons)
  ultimately have "filter (\<lambda>l. l \<noteq> []) (split_on CHR ''\<newline>'' (to_csv f)) = ?h # ?ls"
    by simp
  then have "map snd (filter (\<lambda>(k, l). l \<noteq> []) (enumerate 1 (split_on CHR ''\<newline>'' (to_csv f))))
      = ?h # ?ls"
    by (simp only: map_snd_filter_enumerate)
  then obtain k ls where split: "filter (\<lambda>(k, l). l \<noteq> []) (enumerate 1 (split_on CHR ''\<newline>'' (to_csv f)))
      = (k, ?h) # ls" and ls: "map snd ls = ?ls"
    by (auto simp: Cons_eq_map_conv)
  have hdr: "split_on CHR '','' ?h = columns f"
    using wide names by (intro split_on_join_with) (auto simp: n_cols_def list_all_iff)
  have "parse_rows (n_cols f) ls = Inr (rows f)"
    using rows_ok wide ls by (intro parse_rows_printed) auto
  then show ?thesis
    using split hdr by (cases f) (simp add: read_csv_def n_cols_def)
qed

subsection \<open>What the reader returns\<close>

lemma split_on_not_Nil: "split_on c s \<noteq> []"
  by (induction s) (auto simp: Let_def)

lemma split_on_pieces:
  "x \<in> set (split_on c s) \<Longrightarrow> c \<notin> set x \<and> set x \<subseteq> set s"
proof (induction s arbitrary: x)
  case Nil
  then show ?case by simp
next
  case (Cons y ys)
  let ?r = "split_on c ys"
  have hd: "hd ?r \<in> set ?r" and tl: "set (tl ?r) \<subseteq> set ?r"
    using split_on_not_Nil [of c ys] by (simp_all add: list.set_sel(2) subsetI)
  show ?case
  proof (cases "y = c")
    case True
    then show ?thesis
      using Cons by auto
  next
    case False
    have IH_hd: "c \<notin> set (hd ?r) \<and> set (hd ?r) \<subseteq> set ys"
      using Cons.IH [OF hd] .
    have "x = y # hd ?r \<or> x \<in> set (tl ?r)"
      using Cons.prems False by (auto simp: Let_def)
    then show ?thesis
    proof
      assume "x = y # hd ?r"
      then show ?thesis
        using IH_hd False by auto
    next
      assume "x \<in> set (tl ?r)"
      then show ?thesis
        using Cons.IH tl by auto
    qed
  qed
qed

lemma parse_rows_frame:
  "parse_rows w ls = Inr rs \<Longrightarrow> \<forall>(k, l) \<in> set ls. CHR ''\<newline>'' \<notin> set l \<Longrightarrow>
   list_all (\<lambda>r. length r = w \<and> list_all csv_cell_ok r) rs"
proof (induction w ls arbitrary: rs rule: parse_rows.induct)
  case (1 w)
  then show ?case by simp
next
  case (2 w k l ls)
  let ?fs = "split_on CHR '','' l"
  obtain rs' where rs: "rs = (map parse_cell ?fs @ replicate (w - length ?fs) NaN) # rs'"
    and w: "length ?fs \<le> w" and rest: "parse_rows w ls = Inr rs'"
    using "2.prems"(1) by (auto simp: Let_def split: if_splits)
  have "csv_cell_ok (parse_cell x)" if "x \<in> set ?fs" for x
    using that "2.prems"(2) split_on_pieces [OF that] by (auto intro: csv_cell_ok_parse_cell)
  moreover have "csv_cell_ok NaN"
    by (simp add: csv_cell_ok_def)
  ultimately show ?case
    using "2.IH" [OF _ _ rest] "2.prems"(2) w rs by (auto simp: Let_def list_all_iff)
qed

lemma read_csv_frame:
  assumes "read_csv s = Inr f"
  shows "wf_frame f \<and> csv_rows_ok f \<and> list_all (\<lambda>n. CHR '','' \<notin> set n \<and> CHR ''\<newline>'' \<notin> set n) (columns f)"
proof -
  let ?L = "filter (\<lambda>(k, l). l \<noteq> []) (enumerate 1 (split_on CHR ''\<newline>'' s))"
  obtain k h ls where lines: "?L = (k, h) # ls"
    and f: "map_sum id (\<lambda>rs. \<lparr>columns = split_on CHR '','' h, rows = rs\<rparr>)
             (parse_rows (length (split_on CHR '','' h)) ls) = Inr f"
    using assms by (auto simp: read_csv_def Let_def split: list.splits)
  have in_L: "l \<in> set (split_on CHR ''\<newline>'' s)" if "(j, l) \<in> set ?L" for j l
    using that by (auto simp: in_set_enumerate_eq)
  have no_nl: "CHR ''\<newline>'' \<notin> set l" if "(j, l) \<in> set ?L" for j l
    using split_on_pieces [OF in_L [OF that]] by simp
  have memb: "x \<in> set ?L" if "x \<in> set ((k, h) # ls)" for x
    unfolding lines using that .
  have nl: "CHR ''\<newline>'' \<notin> set h" "\<forall>(j, l) \<in> set ls. CHR ''\<newline>'' \<notin> set l"
    using no_nl [OF memb] by auto
  obtain rs where rs: "parse_rows (length (split_on CHR '','' h)) ls = Inr rs"
    and f_eq: "f = \<lparr>columns = split_on CHR '','' h, rows = rs\<rparr>"
    using f by auto
  have "list_all (\<lambda>r. length r = length (split_on CHR '','' h) \<and> list_all csv_cell_ok r) rs"
    using parse_rows_frame [OF rs nl(2)] .
  then have "wf_frame f \<and> csv_rows_ok f"
    using f_eq by (simp add: wf_frame_def n_cols_def csv_rows_ok_def list_all_iff)
  moreover have "list_all (\<lambda>n. CHR '','' \<notin> set n \<and> CHR ''\<newline>'' \<notin> set n) (columns f)"
    using f_eq nl(1) split_on_pieces [of _ "CHR '',''" h] by (auto simp: list_all_iff)
  ultimately show ?thesis
    by blast
qed

text \<open>The reader on inputs where pandas goes beyond the spec's format.\<close>

lemma read_csv_examples:
  "read_csv ''a,b\<newline>1\<newline>'' = Inr \<lparr>columns = [''a'', ''b''], rows = [[Num (Dec 1 0), NaN]]\<rparr>"
  "read_csv ''a,b\<newline>x,NA\<newline>'' = Inr \<lparr>columns = [''a'', ''b''], rows = [[Text ''x'', NaN]]\<rparr>"
  "read_csv ''a,b\<newline>\<newline>1,2,3\<newline>'' =
     Inl (ParserError ''Error tokenizing data. C error: Expected 2 fields in line 3, saw 3\<newline>'')"
  "read_csv ''\<newline>\<newline>'' = Inl EmptyDataError"
  by code_simp+

end
