(* ===== verification/Streamlit.thy ===== *)
theory Streamlit
  imports Frame
begin

text \<open>
  The part of the Streamlit runtime that \<^verbatim>\<open>src/app.py\<close> uses. A script run
  renders a page: the list of elements in the order the script calls
  \<open>st.markdown\<close>, \<open>st.title\<close>, \<open>st.error\<close>, \<open>st.dataframe\<close>, \<open>col.metric\<close>,
  \<open>st.plotly_chart\<close>, \<open>st.download_button\<close> and the rest (type \<open>element\<close>).
  A statement of the script is an \<open>'a script\<close>: it takes the page rendered
  so far and returns its outcome (a value, a raised exception, or the stop
  requested by \<open>st.stop()\<close>) and the page after it. \<open>sbind\<close> runs two
  statements in sequence and skips the second when the first raised or
  stopped; \<open>try_except\<close> is \<open>try: ... except Exception as e: ...\<close>, which
  does not catch the stop (Streamlit's stop exception is no \<open>Exception\<close>).
  The page is the observable behaviour: every claim about the application is a
  claim about the page it renders.
\<close>

datatype delta_color = Normal | Inverse

text \<open>A Plotly pie figure: its slices (name and value), colour map and title.\<close>

datatype chart = Pie "(string \<times> nat) list" "(string \<times> string) list" string

datatype element =
    Markdown string bool
  | SidebarImage string nat
  | SidebarTitle string
  | SidebarMarkdown string
  | Title string
  | Write string
  | FileUploader string "string list"
  | Subheader string
  | DataFrame frame
  | Error string
  | Success string
  | Info string
  | Columns nat
  | Metric nat string nat "string option" delta_color
  | PlotlyChart chart
  | DownloadButton string string string string

datatype 'a outcome = Ret 'a | Raise exc | Stop

type_synonym page = "element list"

type_synonym 'a script = "page \<Rightarrow> 'a outcome \<times> page"

definition ret :: "'a \<Rightarrow> 'a script" where
  "ret x p = (Ret x, p)"

definition emit :: "element \<Rightarrow> unit script" where
  "emit u p = (Ret (), p @ [u])"

definition lift_res :: "exc + 'a \<Rightarrow> 'a script" where
  "lift_res r p = (case r of Inl e \<Rightarrow> (Raise e, p) | Inr x \<Rightarrow> (Ret x, p))"

definition st_stop :: "'a script" where
  "st_stop p = (Stop, p)"

definition sbind :: "'a script \<Rightarrow> ('a \<Rightarrow> 'b script) \<Rightarrow> 'b script" where
  "sbind m k p =
     (case m p of
        (Ret x, p') \<Rightarrow> k x p'
      | (Raise e, p') \<Rightarrow> (Raise e, p')
      | (Stop, p') \<Rightarrow> (Stop, p'))"

definition seq :: "unit script \<Rightarrow> 'b script \<Rightarrow> 'b script" where
  "seq m n = sbind m (\<lambda>_. n)"

definition try_except :: "'a script \<Rightarrow> (exc \<Rightarrow> 'a script) \<Rightarrow> 'a script" where
  "try_except m h p = (case m p of (Raise e, p') \<Rightarrow> h e p' | r \<Rightarrow> r)"

text \<open>The page that a whole script renders from an empty page.\<close>

definition run_page :: "unit script \<Rightarrow> page" where
  "run_page s = snd (s [])"

subsection \<open>Running statements\<close>

lemma sbind_ret [script_simps]: "sbind (ret x) k = k x"
  by (simp add: sbind_def ret_def fun_eq_iff)

lemma sbind_emit [script_simps]: "sbind (emit u) k p = k () (p @ [u])"
  by (simp add: sbind_def emit_def)

lemma seq_emit [script_simps]: "seq (emit u) n p = n (p @ [u])"
  by (simp add: seq_def sbind_emit)

lemma sbind_lift_Inr [script_simps]: "sbind (lift_res (Inr x)) k = k x"
  by (simp add: sbind_def lift_res_def fun_eq_iff)

lemma sbind_lift_Inl [script_simps]: "sbind (lift_res (Inl e)) k p = (Raise e, p)"
  by (simp add: sbind_def lift_res_def)

lemma sbind_stop [script_simps]: "sbind st_stop k p = (Stop, p)"
  by (simp add: sbind_def st_stop_def)

lemma seq_stop [script_simps]: "seq st_stop n p = (Stop, p)"
  by (simp add: seq_def sbind_stop)

lemma sbind_assoc: "sbind (sbind m k) h = sbind m (\<lambda>x. sbind (k x) h)"
  by (auto simp: sbind_def fun_eq_iff split: prod.splits outcome.splits)

lemma try_except_Ret [script_simps]:
  "m p = (Ret x, p') \<Longrightarrow> try_except m h p = (Ret x, p')"
  by (simp add: try_except_def)

lemma try_except_Raise [script_simps]:
  "m p = (Raise e, p') \<Longrightarrow> try_except m h p = h e p'"
  by (simp add: try_except_def)

lemma try_except_Stop [script_simps]:
  "m p = (Stop, p') \<Longrightarrow> try_except m h p = (Stop, p')"
  by (simp add: try_except_def)

declare ret_def [script_simps] emit_def [script_simps] st_stop_def [script_simps]
  lift_res_def [script_simps] seq_def [script_simps] sbind_def [script_simps]
  try_except_def [script_simps]

end
