(* ===== verification/Oracle.thy ===== *)
theory Oracle
  imports Frame
begin

text \<open>
  The Scoring Oracle and what the script reads from outside. The classifier
  that \<open>joblib.load("best_model.joblib")\<close> returns (\<^verbatim>\<open>src/app.py\<close> line 79)
  is opaque: a \<open>model\<close> is the pair of its two methods as the script calls
  them, \<open>model.predict_proba(df)\<close> (line 86), a matrix of decimals, and
  \<open>model.predict(df)\<close> (line 87), one integer label per row; either may raise.
  The environment \<open>env\<close> holds the uploaded file's contents, \<open>None\<close> when
  nothing is uploaded (line 67), and what \<open>joblib.load\<close> gives for a path: a
  model, or the exception it raises (a missing file is
  \<open>FileNotFoundError\<close>). Nothing is assumed of a model; the spec's contract of
  a well-behaved oracle (section 4.3) is the predicate \<open>oracle_contract\<close>,
  which claims take as a hypothesis where they need it.
\<close>

record model =
  predict_proba :: "frame \<Rightarrow> exc + decimal list list"
  predict :: "frame \<Rightarrow> exc + int list"

record env =
  uploaded :: "string option"
  joblib_load :: "string \<Rightarrow> exc + model"

definition model_path :: string where
  "model_path = ''best_model.joblib''"

text \<open>
  Spec 4.3 and 8.3: per row, a non-fraud and a fraud probability, both
  non-negative and summing to 1 within \<open>10^-6\<close>, and the label 1 exactly when
  the fraud probability is the larger (the first class wins a tie, as
  \<open>argmax\<close> does).
\<close>

definition prob_pair_ok :: "decimal list \<Rightarrow> int \<Rightarrow> bool" where
  "prob_pair_ok p l \<longleftrightarrow>
     (case p of
        [a, b] \<Rightarrow> 0 \<le> dec_val a \<and> 0 \<le> dec_val b \<and> \<bar>dec_val a + dec_val b - 1\<bar> \<le> 1 / 10 ^ 6
                  \<and> l = (if dec_val a < dec_val b then 1 else 0)
      | _ \<Rightarrow> False)"

definition scores_ok :: "nat \<Rightarrow> decimal list list \<Rightarrow> int list \<Rightarrow> bool" where
  "scores_ok n P L \<longleftrightarrow> length P = n \<and> length L = n \<and> list_all2 prob_pair_ok P L"

definition oracle_contract :: "model \<Rightarrow> frame \<Rightarrow> bool" where
  "oracle_contract m df \<longleftrightarrow>
     (case (predict_proba m df, predict m df) of
        (Inr P, Inr L) \<Rightarrow> scores_ok (n_rows df) P L
      | _ \<Rightarrow> False)"

lemma oracle_contract_scores:
  assumes "oracle_contract m df"
  obtains P L where "predict_proba m df = Inr P" "predict m df = Inr L" "scores_ok (n_rows df) P L"
  using assms by (auto simp: oracle_contract_def split: sum.splits)

lemma scores_ok_width:
  "scores_ok n P L \<Longrightarrow> list_all (\<lambda>p. length p = 2) P"
proof -
  assume ok: "scores_ok n P L"
  then have "list_all2 prob_pair_ok P L"
    by (simp add: scores_ok_def)
  then show ?thesis
  proof (induction rule: list_all2_induct)
    case Nil
    then show ?case by simp
  next
    case (Cons p l P L)
    then show ?case
      by (simp add: prob_pair_ok_def split: list.splits)
  qed
qed

end
