(* ===== verification/Composer.thy ===== *)
theory Composer
  imports Oracle
begin

text \<open>
  The Result Composer: lines 86-93 and 100-102 of \<^verbatim>\<open>src/app.py\<close>. Scoring
  (\<open>score\<close>) calls \<open>predict_proba\<close> and \<open>predict\<close>, wraps the
  probabilities in a frame with the two probability columns, adds the labels as
  the column \<open>Prediction\<close> and joins the result to the uploaded frame column-wise.
  None of these statements renders anything, so a pure function with the
  exception as \<open>Inl\<close> is the faithful model; the first exception wins, in the
  order of the source lines. The counts (\<open>summary_counts\<close>) are
  \<open>(predictions == 1).sum()\<close>, \<open>(predictions == 0).sum()\<close> and their sum.

  The abstract specification is the spec's ResultTable (section 3): the input
  columns followed by the three result columns, row \<open>i\<close> being input row \<open>i\<close>
  followed by prediction \<open>i\<close> (\<open>result_table\<close>). Scoring refines it
  whenever the oracle answers one probability pair and one label per row.
\<close>

definition proba_columns :: "string list" where
  "proba_columns = [''Non-Fraud Probability'', ''Fraud Probability'']"

definition label_cell :: "int \<Rightarrow> cell" where
  "label_cell l = Num (Dec l 0)"

definition score :: "model \<Rightarrow> frame \<Rightarrow> exc + frame \<times> int list" where
  "score m df =
     (case predict_proba m df of
        Inl e \<Rightarrow> Inl e
      | Inr probabilities \<Rightarrow>
     (case predict m df of
        Inl e \<Rightarrow> Inl e
      | Inr predictions \<Rightarrow>
     (case frame_of_array proba_columns probabilities of
        Inl e \<Rightarrow> Inl e
      | Inr results \<Rightarrow>
     (case set_column ''Prediction'' (map label_cell predictions) results of
        Inl e \<Rightarrow> Inl e
      | Inr results' \<Rightarrow> Inr (concat_axis1 df results', predictions)))))"

record summary =
  total :: nat
  fraud_count :: nat
  nonfraud_count :: nat

definition summary_counts :: "int list \<Rightarrow> summary" where
  "summary_counts predictions =
     (let fraud = count_list predictions 1; nonfraud = count_list predictions 0
      in \<lparr>total = fraud + nonfraud, fraud_count = fraud, nonfraud_count = nonfraud\<rparr>)"

subsection \<open>Abstract specification\<close>

definition prediction_row :: "decimal list \<Rightarrow> int \<Rightarrow> cell list" where
  "prediction_row p l = map Num p @ [label_cell l]"

definition result_table :: "frame \<Rightarrow> decimal list list \<Rightarrow> int list \<Rightarrow> frame" where
  "result_table df P L =
     \<lparr>columns = columns df @ proba_columns @ [''Prediction''],
      rows = map2 (@) (rows df) (map2 prediction_row P L)\<rparr>"

definition oracle_answers :: "model \<Rightarrow> frame \<Rightarrow> decimal list list \<Rightarrow> int list \<Rightarrow> bool" where
  "oracle_answers m df P L \<longleftrightarrow>
     predict_proba m df = Inr P \<and> predict m df = Inr L \<and>
     length P = n_rows df \<and> length L = n_rows df \<and> list_all (\<lambda>p. length p = 2) P"

subsection \<open>Scoring refines the result table\<close>

lemma score_answers:
  assumes "oracle_answers m df P L"
  shows "score m df = Inr (result_table df P L, L)"
proof -
  have P: "predict_proba m df = Inr P" and L: "predict m df = Inr L"
    and lens: "length P = n_rows df" "length L = n_rows df"
    and w: "list_all (\<lambda>p. length p = 2) P"
    using assms by (simp_all add: oracle_answers_def)
  let ?res = "\<lparr>columns = proba_columns, rows = map (map Num) P\<rparr>"
  have arr: "frame_of_array proba_columns P = Inr ?res"
    using w unfolding proba_columns_def by (intro frame_of_array_Inr) (simp add: numeral_2_eq_2)
  let ?res' = "?res\<lparr>columns := proba_columns @ [''Prediction''],
     rows := map2 (\<lambda>r v. r @ [v]) (map (map Num) P) (map label_cell L)\<rparr>"
  have col: "set_column ''Prediction'' (map label_cell L) ?res = Inr ?res'"
    using lens by (simp add: set_column_Inr n_rows_def)
  have rows_res': "rows ?res' = map2 prediction_row P L"
    by (simp add: prediction_row_def zip_map1 zip_map2 o_def case_prod_beta)
  have "concat_axis1 df ?res' = result_table df P L"
    using lens rows_res' by (simp add: concat_axis1_same_length n_rows_def result_table_def)
  then show ?thesis
    using P L arr col by (simp add: score_def)
qed

lemma result_table_row:
  assumes "i < n_rows df" "length P = n_rows df" "length L = n_rows df"
  shows "rows (result_table df P L) ! i = rows df ! i @ map Num (P ! i) @ [label_cell (L ! i)]"
  using assms by (simp add: result_table_def prediction_row_def n_rows_def)

lemma n_rows_result_table:
  "length P = n_rows df \<Longrightarrow> length L = n_rows df \<Longrightarrow> n_rows (result_table df P L) = n_rows df"
  by (simp add: result_table_def n_rows_def)

lemma wf_result_table:
  assumes "wf_frame df" "length P = n_rows df" "length L = n_rows df" "list_all (\<lambda>p. length p = 2) P"
  shows "wf_frame (result_table df P L)"
  using assms
  by (auto simp: wf_frame_def n_cols_def result_table_def prediction_row_def proba_columns_def
      list_all_iff set_zip n_rows_def)

subsection \<open>Claims\<close>

text \<open>
  C3. Scoring implements the spec's Result Composer: when the model answers one
  probability pair and one label per row, the output frame is the abstract
  result table, with as many rows as the upload, and row \<open>i\<close> is input row
  \<open>i\<close> followed by pair \<open>i\<close> and label \<open>i\<close>.
\<close>

theorem score_refines_result_table:
  assumes "oracle_answers m df P L"
  shows "score m df = Inr (result_table df P L, L) \<and> n_rows (result_table df P L) = n_rows df \<and>
    (\<forall>i < n_rows df. rows (result_table df P L) ! i = rows df ! i @ map Num (P ! i) @ [label_cell (L ! i)])"
proof -
  have lens: "length P = n_rows df" "length L = n_rows df"
    using assms by (simp_all add: oracle_answers_def)
  show ?thesis
    using score_answers [OF assms] n_rows_result_table [OF lens] result_table_row [OF _ lens]
    by blast
qed

theorem score_refines_result_table_witness:
  "oracle_answers \<lparr>predict_proba = (\<lambda>_. Inr [[Dec 3 1, Dec 7 1]]), predict = (\<lambda>_. Inr [1])\<rparr>
     \<lparr>columns = [''x''], rows = [[Num (Dec 4 0)]]\<rparr> [[Dec 3 1, Dec 7 1]] [1] \<and>
   score \<lparr>predict_proba = (\<lambda>_. Inr [[Dec 3 1, Dec 7 1]]), predict = (\<lambda>_. Inr [1])\<rparr>
     \<lparr>columns = [''x''], rows = [[Num (Dec 4 0)]]\<rparr>
   = Inr (result_table \<lparr>columns = [''x''], rows = [[Num (Dec 4 0)]]\<rparr> [[Dec 3 1, Dec 7 1]] [1], [1])"
proof -
  have a: "oracle_answers \<lparr>predict_proba = (\<lambda>_. Inr [[Dec 3 1, Dec 7 1]]), predict = (\<lambda>_. Inr [1])\<rparr>
     \<lparr>columns = [''x''], rows = [[Num (Dec 4 0)]]\<rparr> [[Dec 3 1, Dec 7 1]] [1]"
    by (simp add: oracle_answers_def n_rows_def)
  show ?thesis
    using a score_refines_result_table [OF a] by blast
qed

text \<open>
  C4. The displayed counts are consistent: the fraud and the non-fraud count
  add up to the displayed total, and that total is the number of scored rows
  exactly when every label is 0 or 1 (the script counts labels, it does not
  count rows).
\<close>

theorem summary_counts_consistent:
  "fraud_count (summary_counts L) + nonfraud_count (summary_counts L) = total (summary_counts L) \<and>
   (total (summary_counts L) = length L \<longleftrightarrow> set L \<subseteq> {0, 1})"
  using count_list_two_eq_length [of "1 :: int" 0 L]
  by (auto simp: summary_counts_def Let_def insert_commute)

text \<open>
  C11. If the classifier keeps the spec's oracle contract on a well-formed upload
  (one pair per row, non-negative, summing to 1 within \<open>10^-6\<close>, the label the
  arg-max of the pair), then scoring succeeds and every output row ends with
  exactly such a pair and label after the input cells.
\<close>

theorem label_consistency:
  assumes "wf_frame df" "oracle_contract m df"
  shows "\<exists>out L. score m df = Inr (out, L) \<and> n_rows out = n_rows df \<and>
    (\<forall>i < n_rows df. \<exists>a b l. drop (n_cols df) (rows out ! i) = [Num a, Num b, label_cell l]
                               \<and> prob_pair_ok [a, b] l)"
proof -
  obtain P L where P: "predict_proba m df = Inr P" and L: "predict m df = Inr L"
    and ok: "scores_ok (n_rows df) P L"
    using assms(2) by (rule oracle_contract_scores)
  have ans: "oracle_answers m df P L"
    using P L ok scores_ok_width [OF ok] by (simp add: oracle_answers_def scores_ok_def)
  have lens: "length P = n_rows df" "length L = n_rows df"
    using ok by (simp_all add: scores_ok_def)
  have rows_ok: "\<exists>a b l. drop (n_cols df) (rows (result_table df P L) ! i) = [Num a, Num b, label_cell l]
                   \<and> prob_pair_ok [a, b] l" if i: "i < n_rows df" for i
  proof -
    have pp: "prob_pair_ok (P ! i) (L ! i)"
      using ok i by (simp add: scores_ok_def list_all2_nthD)
    then obtain a b where ab: "P ! i = [a, b]"
      by (auto simp: prob_pair_ok_def split: list.splits)
    have "length (rows df ! i) = n_cols df"
      using assms(1) i by (simp add: wf_frame_def list_all_length n_rows_def)
    then have "drop (n_cols df) (rows (result_table df P L) ! i) = [Num a, Num b, label_cell (L ! i)]"
      using result_table_row [OF i lens] ab by simp
    moreover have "prob_pair_ok [a, b] (L ! i)"
      using pp ab by simp
    ultimately show ?thesis
      by blast
  qed
  show ?thesis
    using score_answers [OF ans] n_rows_result_table [OF lens] rows_ok by blast
qed

theorem label_consistency_witness:
  "wf_frame \<lparr>columns = [''x''], rows = [[Num (Dec 4 0)]]\<rparr> \<and>
   oracle_contract \<lparr>predict_proba = (\<lambda>_. Inr [[Dec 3 1, Dec 7 1]]), predict = (\<lambda>_. Inr [1])\<rparr>
     \<lparr>columns = [''x''], rows = [[Num (Dec 4 0)]]\<rparr> \<and>
   (\<exists>out L. score \<lparr>predict_proba = (\<lambda>_. Inr [[Dec 3 1, Dec 7 1]]), predict = (\<lambda>_. Inr [1])\<rparr>
       \<lparr>columns = [''x''], rows = [[Num (Dec 4 0)]]\<rparr> = Inr (out, L) \<and>
     n_rows out = n_rows \<lparr>columns = [''x''], rows = [[Num (Dec 4 0)]]\<rparr> \<and>
     (\<forall>i < n_rows \<lparr>columns = [''x''], rows = [[Num (Dec 4 0)]]\<rparr>. \<exists>a b l.
        drop (n_cols \<lparr>columns = [''x''], rows = [[Num (Dec 4 0)]]\<rparr>) (rows out ! i)
          = [Num a, Num b, label_cell l] \<and> prob_pair_ok [a, b] l))"
proof -
  have w: "wf_frame \<lparr>columns = [''x''], rows = [[Num (Dec 4 0)]]\<rparr>"
    by (simp add: wf_frame_def n_cols_def)
  have c: "oracle_contract \<lparr>predict_proba = (\<lambda>_. Inr [[Dec 3 1, Dec 7 1]]), predict = (\<lambda>_. Inr [1])\<rparr>
     \<lparr>columns = [''x''], rows = [[Num (Dec 4 0)]]\<rparr>"
    by (simp add: oracle_contract_def scores_ok_def prob_pair_ok_def dec_val_def n_rows_def)
  show ?thesis
    using w c label_consistency [OF w c] by blast
qed

text \<open>
  C15. Scoring does not check that the model answered one row per input row: if
  it answers fewer (consistently), pandas' index-aligned concatenation pads the
  missing rows with NaN in the three result columns, the page shows them, and
  the displayed total is smaller than the number of uploaded rows.
\<close>

theorem score_pads_short_answers:
  assumes "predict_proba m df = Inr P" "predict m df = Inr L" "length L = length P"
    "list_all (\<lambda>p. length p = 2) P" "length P < n_rows df"
  shows "\<exists>out. score m df = Inr (out, L) \<and> n_rows out = n_rows df \<and>
    (\<forall>i. length P \<le> i \<and> i < n_rows df \<longrightarrow> rows out ! i = rows df ! i @ [NaN, NaN, NaN]) \<and>
    total (summary_counts L) < n_rows df"
proof -
  let ?res = "\<lparr>columns = proba_columns, rows = map (map Num) P\<rparr>"
  let ?res' = "?res\<lparr>columns := proba_columns @ [''Prediction''],
     rows := map2 (\<lambda>r v. r @ [v]) (map (map Num) P) (map label_cell L)\<rparr>"
  have arr: "frame_of_array proba_columns P = Inr ?res"
    using assms(4) unfolding proba_columns_def by (intro frame_of_array_Inr) (simp add: numeral_2_eq_2)
  have col: "set_column ''Prediction'' (map label_cell L) ?res = Inr ?res'"
    using assms(3) by (simp add: set_column_Inr n_rows_def)
  have sc: "score m df = Inr (concat_axis1 df ?res', L)"
    using assms(1,2) arr col by (simp add: score_def)
  have wf': "wf_frame ?res'"
    using assms(4) by (auto simp: wf_frame_def n_cols_def proba_columns_def list_all_iff set_zip)
  have n': "n_rows ?res' = length P"
    using assms(3) by (simp add: n_rows_def)
  have beyond: "rows (concat_axis1 df ?res') ! i = rows df ! i @ [NaN, NaN, NaN]"
    if "length P \<le> i" "i < n_rows df" for i
    using concat_axis1_row_beyond [of ?res' i df] that wf' n'
    by (simp add: n_cols_def proba_columns_def numeral_eq_Suc)
  have "n_rows (concat_axis1 df ?res') = n_rows df"
    using n' assms(5) by (simp add: n_rows_concat_axis1)
  moreover have "total (summary_counts L) < n_rows df"
    using count_list_two_le [of "1 :: int" 0 L] assms(3,5) by (simp add: summary_counts_def Let_def)
  ultimately show ?thesis
    using sc beyond by blast
qed

theorem score_pads_short_answers_witness:
  "predict_proba \<lparr>predict_proba = (\<lambda>_. Inr [[Dec 3 1, Dec 7 1]]), predict = (\<lambda>_. Inr [1])\<rparr>
     \<lparr>columns = [''x''], rows = [[Num (Dec 4 0)], [Num (Dec 5 0)]]\<rparr> = Inr [[Dec 3 1, Dec 7 1]] \<and>
   predict \<lparr>predict_proba = (\<lambda>_. Inr [[Dec 3 1, Dec 7 1]]), predict = (\<lambda>_. Inr [1])\<rparr>
     \<lparr>columns = [''x''], rows = [[Num (Dec 4 0)], [Num (Dec 5 0)]]\<rparr> = Inr [1] \<and>
   (\<exists>out. score \<lparr>predict_proba = (\<lambda>_. Inr [[Dec 3 1, Dec 7 1]]), predict = (\<lambda>_. Inr [1])\<rparr>
       \<lparr>columns = [''x''], rows = [[Num (Dec 4 0)], [Num (Dec 5 0)]]\<rparr> = Inr (out, [1]) \<and>
     n_rows out = 2 \<and> rows out ! 1 = [Num (Dec 5 0), NaN, NaN, NaN] \<and>
     total (summary_counts [1]) < 2)"
proof -
  have "\<exists>out. score \<lparr>predict_proba = (\<lambda>_. Inr [[Dec 3 1, Dec 7 1]]), predict = (\<lambda>_. Inr [1])\<rparr>
       \<lparr>columns = [''x''], rows = [[Num (Dec 4 0)], [Num (Dec 5 0)]]\<rparr> = Inr (out, [1]) \<and>
     n_rows out = n_rows \<lparr>columns = [''x''], rows = [[Num (Dec 4 0)], [Num (Dec 5 0)]]\<rparr> \<and>
     (\<forall>i. length [[Dec 3 1, Dec 7 1]] \<le> i \<and> i < n_rows \<lparr>columns = [''x''], rows = [[Num (Dec 4 0)], [Num (Dec 5 0)]]\<rparr>
        \<longrightarrow> rows out ! i = rows \<lparr>columns = [''x''], rows = [[Num (Dec 4 0)], [Num (Dec 5 0)]]\<rparr> ! i @ [NaN, NaN, NaN]) \<and>
     total (summary_counts [1]) < n_rows \<lparr>columns = [''x''], rows = [[Num (Dec 4 0)], [Num (Dec 5 0)]]\<rparr>"
    by (rule score_pads_short_answers) (simp_all add: n_rows_def)
  then show ?thesis
    by (auto simp: n_rows_def)
qed

text \<open>
  C16. With both answers of the model in hand, scoring raises pandas'
  \<open>ValueError\<close> exactly when some probability row is not a pair (a model with
  other than two classes) or the labels are not as many as the probability rows.
\<close>

theorem score_value_errors:
  assumes "predict_proba m df = Inr P" "predict m df = Inr L"
  shows "(\<exists>msg. score m df = Inl (ValueError msg)) \<longleftrightarrow>
    \<not> list_all (\<lambda>p. length p = 2) P \<or> length L \<noteq> length P"
  using assms
  by (auto simp: score_def frame_of_array_def set_column_def proba_columns_def n_rows_def
      numeral_2_eq_2)

theorem score_value_errors_witness:
  "predict_proba \<lparr>predict_proba = (\<lambda>_. Inr [[Dec 2 1, Dec 3 1, Dec 5 1]]), predict = (\<lambda>_. Inr [2])\<rparr>
     \<lparr>columns = [''x''], rows = [[Num (Dec 4 0)]]\<rparr> = Inr [[Dec 2 1, Dec 3 1, Dec 5 1]] \<and>
   predict \<lparr>predict_proba = (\<lambda>_. Inr [[Dec 2 1, Dec 3 1, Dec 5 1]]), predict = (\<lambda>_. Inr [2])\<rparr>
     \<lparr>columns = [''x''], rows = [[Num (Dec 4 0)]]\<rparr> = Inr [2] \<and>
   (\<exists>msg. score \<lparr>predict_proba = (\<lambda>_. Inr [[Dec 2 1, Dec 3 1, Dec 5 1]]), predict = (\<lambda>_. Inr [2])\<rparr>
     \<lparr>columns = [''x''], rows = [[Num (Dec 4 0)]]\<rparr> = Inl (ValueError msg))"
proof -
  have "(\<exists>msg. score \<lparr>predict_proba = (\<lambda>_. Inr [[Dec 2 1, Dec 3 1, Dec 5 1]]), predict = (\<lambda>_. Inr [2])\<rparr>
     \<lparr>columns = [''x''], rows = [[Num (Dec 4 0)]]\<rparr> = Inl (ValueError msg)) \<longleftrightarrow>
    \<not> list_all (\<lambda>p. length p = 2) [[Dec 2 1, Dec 3 1, Dec 5 1]] \<or> length [2::int] \<noteq> length [[Dec 2 1, Dec 3 1, Dec 5 1]]"
    by (rule score_value_errors) simp_all
  then show ?thesis
    by simp
qed

end
