(* ===== verification/App.thy ===== *)
theory App
  imports Csv Streamlit Composer
begin

text \<open>
  The script \<^verbatim>\<open>src/app.py\<close> itself, statement by statement, as a
  \<open>unit script\<close> over the rendered page: the page chrome (lines 7-65), the
  uploader (line 67), and for an uploaded file the block of lines 70-130
  (\<open>file_block\<close>): read the CSV, preview its first five rows, check the
  column count against 30, load the model (lines 78-82, \<open>load_model\<close>, which
  stops the script after showing the error), and the prediction block of lines
  84-128 (\<open>predict_block\<close>): score, announce success, show the result table,
  the three metrics (\<open>show_metrics\<close>), the pie chart (\<open>fraud_pie\<close>) and the
  download button (\<open>download\<close>). Each \<open>try\<close> of the source is a
  \<open>try_except\<close> whose handler renders the one-line error banner. Emoji
  prefixes of the displayed texts are left out (the theory is ASCII); the CSS
  of lines 8-47 is kept with its layout whitespace collapsed.
\<close>

definition app_css :: string where
  "app_css = ''<style> body { background-color: #f0f2f6; } .main { background-color: #f0f2f6; } ''
    @ ''.stApp { background: linear-gradient(135deg, #e0e7ff 0%, #f5f7fa 100%); } ''
    @ ''.stButton>button { color: white; background: linear-gradient(90deg, #4F8BF9 0%, #235390 100%); ''
    @ ''border-radius: 8px; font-weight: bold; padding: 0.5em 2em; margin-top: 1em; } ''
    @ ''.stFileUploader { border: 2px solid #4F8BF9; border-radius: 8px; background: #f8fafc; } ''
    @ ''.stDataFrame { background: #fff; border-radius: 8px; box-shadow: 0 2px 8px rgba(79,139,249,0.08); } ''
    @ ''.metric-label { font-size: 1.1em; color: #4F8BF9; font-weight: bold; } ''
    @ ''.metric-value { font-size: 2em; font-weight: bold; } </style>''"

definition sidebar_text :: string where
  "sidebar_text = ''- Upload a CSV file with **30 input features** per row.\<newline>''
    @ ''- The app predicts the probability of fraud and non-fraud for each entry.\<newline>''
    @ ''- Download the results as a CSV.\<newline>---''"

definition intro_text :: string where
  "intro_text = ''Upload a CSV file with 30 input features per row. ''
    @ ''The app will predict the probability of fraud and non-fraud for each entry.''"

definition app_chrome :: "unit script" where
  "app_chrome =
     seq (emit (Markdown app_css True))
    (seq (emit (SidebarImage ''https://img.icons8.com/ios-filled/100/4F8BF9/fraud.png'' 80))
    (seq (emit (SidebarTitle ''Fraud Detection App''))
    (seq (emit (SidebarMarkdown sidebar_text))
    (seq (emit (Title ''Fraud Detection App''))
         (emit (Write intro_text))))))"

definition file_uploader :: "env \<Rightarrow> string option script" where
  "file_uploader env = seq (emit (FileUploader ''Upload your CSV file'' [''csv''])) (ret (uploaded env))"

definition n_features :: nat where
  "n_features = 30"

definition schema_error :: "nat \<Rightarrow> string" where
  "schema_error n =
     ''Expected 30 input features, but found '' @ show_nat n @ ''. Please upload a valid file.''"

definition load_model :: "env \<Rightarrow> model script" where
  "load_model env =
     try_except (lift_res (joblib_load env model_path))
       (\<lambda>e. seq (emit (Error (''Error loading model: '' @ exc_str e))) st_stop)"

text \<open>\<open>fraud_count/total\<close> in Python 3: true division, \<open>ZeroDivisionError\<close> on 0.\<close>

definition pct :: "nat \<Rightarrow> nat \<Rightarrow> exc + string" where
  "pct a b = (if b = 0 then Inl ZeroDivisionError else Inr (fmt_pct (of_nat a / of_nat b)))"

definition show_metrics :: "summary \<Rightarrow> unit script" where
  "show_metrics s =
     seq (emit (Columns 3))
    (seq (emit (Metric 1 ''Total Cases'' (total s) None Normal))
    (sbind (lift_res (pct (fraud_count s) (total s))) (\<lambda>d.
     seq (emit (Metric 2 ''Fraudulent Cases'' (fraud_count s) (Some d) Inverse))
    (sbind (lift_res (pct (nonfraud_count s) (total s))) (\<lambda>d'.
     emit (Metric 3 ''Non-Fraudulent Cases'' (nonfraud_count s) (Some d') Normal))))))"

definition fraud_pie :: "summary \<Rightarrow> chart" where
  "fraud_pie s =
     Pie [(''Fraudulent'', fraud_count s), (''Non-Fraudulent'', nonfraud_count s)]
         [(''Fraudulent'', ''#FF6361''), (''Non-Fraudulent'', ''#58508D'')]
         ''Fraud vs Non-Fraud Cases''"

definition download :: "frame \<Rightarrow> unit script" where
  "download output =
     emit (DownloadButton ''Download Results as CSV'' (to_csv output)
             ''fraud_detection_results.csv'' ''text/csv'')"

definition predict_block :: "model \<Rightarrow> frame \<Rightarrow> unit script" where
  "predict_block m df =
     try_except
       (sbind (lift_res (score m df)) (\<lambda>(output, predictions).
          seq (emit (Success ''Prediction completed!''))
         (seq (emit (Subheader ''Prediction Results''))
         (seq (emit (DataFrame output))
         (let s = summary_counts predictions in
          seq (show_metrics s)
         (seq (emit (PlotlyChart (fraud_pie s)))
              (download output)))))))
       (\<lambda>e. emit (Error (''Prediction error: '' @ exc_str e)))"

definition file_block :: "env \<Rightarrow> string \<Rightarrow> unit script" where
  "file_block env file =
     try_except
       (sbind (lift_res (read_csv file)) (\<lambda>df.
          seq (emit (Subheader ''Uploaded Data Preview''))
         (seq (emit (DataFrame (head_frame 5 df)))
         (if n_cols df \<noteq> n_features then emit (Error (schema_error (n_cols df)))
          else sbind (load_model env) (\<lambda>m. predict_block m df)))))
       (\<lambda>e. emit (Error (''File error: '' @ exc_str e)))"

definition app :: "env \<Rightarrow> unit script" where
  "app env =
     seq app_chrome
    (sbind (file_uploader env) (\<lambda>up.
       case up of
         None \<Rightarrow> emit (Info ''Please upload a CSV file to get started.'')
       | Some file \<Rightarrow> file_block env file))"

definition run_app :: "env \<Rightarrow> page" where
  "run_app env = run_page (app env)"

text \<open>The elements every run renders first: the chrome and the uploader.\<close>

definition start_page :: page where
  "start_page =
     [Markdown app_css True,
      SidebarImage ''https://img.icons8.com/ios-filled/100/4F8BF9/fraud.png'' 80,
      SidebarTitle ''Fraud Detection App'', SidebarMarkdown sidebar_text,
      Title ''Fraud Detection App'', Write intro_text,
      FileUploader ''Upload your CSV file'' [''csv'']]"

text \<open>
  The elements that tell the user how a run ended: the prompt to upload, an
  error banner, or the button offering the results.
\<close>

fun is_verdict :: "element \<Rightarrow> bool" where
  "is_verdict (Info _) = True"
| "is_verdict (Error _) = True"
| "is_verdict (DownloadButton _ _ _ _) = True"
| "is_verdict _ = False"

subsection \<open>The page of each branch\<close>

lemma app_chrome_run: "app_chrome p = (Ret (), p @ butlast start_page)"
  by (simp add: app_chrome_def start_page_def script_simps)

lemma file_uploader_run:
  "file_uploader env p = (Ret (uploaded env), p @ [FileUploader ''Upload your CSV file'' [''csv'']])"
  by (simp add: file_uploader_def script_simps)

lemma run_app_cases:
  "run_app env =
     snd ((case uploaded env of
             None \<Rightarrow> emit (Info ''Please upload a CSV file to get started.'')
           | Some file \<Rightarrow> file_block env file) start_page)"
proof -
  have "start_page = butlast start_page @ [FileUploader ''Upload your CSV file'' [''csv'']]"
    by (simp add: start_page_def)
  then show ?thesis
    by (simp add: run_app_def run_page_def app_def seq_def sbind_def app_chrome_run file_uploader_run)
qed

lemma predict_block_error:
  "score m df = Inl e \<Longrightarrow>
   predict_block m df p = (Ret (), p @ [Error (''Prediction error: '' @ exc_str e)])"
  by (simp add: predict_block_def script_simps)

lemma predict_block_zero:
  "score m df = Inr (out, L) \<Longrightarrow> total (summary_counts L) = 0 \<Longrightarrow>
   predict_block m df p =
     (Ret (), p @ [Success ''Prediction completed!'', Subheader ''Prediction Results'',
        DataFrame out, Columns 3, Metric 1 ''Total Cases'' 0 None Normal,
        Error ''Prediction error: division by zero''])"
  by (simp add: predict_block_def show_metrics_def pct_def script_simps Let_def)

lemma predict_block_ok:
  "score m df = Inr (out, L) \<Longrightarrow> total (summary_counts L) \<noteq> 0 \<Longrightarrow>
   predict_block m df p =
     (Ret (), p @ [Success ''Prediction completed!'', Subheader ''Prediction Results'',
        DataFrame out, Columns 3, Metric 1 ''Total Cases'' (total (summary_counts L)) None Normal,
        Metric 2 ''Fraudulent Cases'' (fraud_count (summary_counts L))
          (Some (fmt_pct (of_nat (fraud_count (summary_counts L)) / of_nat (total (summary_counts L)))))
          Inverse,
        Metric 3 ''Non-Fraudulent Cases'' (nonfraud_count (summary_counts L))
          (Some (fmt_pct (of_nat (nonfraud_count (summary_counts L)) / of_nat (total (summary_counts L)))))
          Normal,
        PlotlyChart (fraud_pie (summary_counts L)),
        DownloadButton ''Download Results as CSV'' (to_csv out) ''fraud_detection_results.csv'' ''text/csv''])"
  by (simp add: predict_block_def show_metrics_def pct_def download_def script_simps Let_def)

lemma predict_block_extends: "\<exists>q. predict_block m df p = (Ret (), p @ q)"
  by (auto simp: predict_block_def show_metrics_def download_def pct_def script_simps Let_def
      split: sum.splits prod.splits)

lemma file_block_read_error:
  "read_csv file = Inl e \<Longrightarrow> file_block env file p = (Ret (), p @ [Error (''File error: '' @ exc_str e)])"
  by (simp add: file_block_def script_simps)

lemma file_block_schema:
  "read_csv file = Inr df \<Longrightarrow> n_cols df \<noteq> n_features \<Longrightarrow>
   file_block env file p =
     (Ret (), p @ [Subheader ''Uploaded Data Preview'', DataFrame (head_frame 5 df),
                   Error (schema_error (n_cols df))])"
  by (simp add: file_block_def script_simps)

lemma file_block_load_error:
  "read_csv file = Inr df \<Longrightarrow> n_cols df = n_features \<Longrightarrow> joblib_load env model_path = Inl e \<Longrightarrow>
   file_block env file p =
     (Stop, p @ [Subheader ''Uploaded Data Preview'', DataFrame (head_frame 5 df),
                 Error (''Error loading model: '' @ exc_str e)])"
  by (simp add: file_block_def load_model_def script_simps)

lemma file_block_loaded:
  "read_csv file = Inr df \<Longrightarrow> n_cols df = n_features \<Longrightarrow> joblib_load env model_path = Inr m \<Longrightarrow>
   file_block env file p =
     predict_block m df (p @ [Subheader ''Uploaded Data Preview'', DataFrame (head_frame 5 df)])"
  using predict_block_extends [of m df "p @ [Subheader ''Uploaded Data Preview'', DataFrame (head_frame 5 df)]"]
  by (auto simp: file_block_def load_model_def script_simps)

subsection \<open>Whole runs after a successful read\<close>

lemma run_app_scored:
  assumes "uploaded env = Some file" "read_csv file = Inr df" "n_cols df = n_features"
    "joblib_load env model_path = Inr m" "score m df = Inr (out, L)" "total (summary_counts L) \<noteq> 0"
  shows "run_app env = start_page @
     [Subheader ''Uploaded Data Preview'', DataFrame (head_frame 5 df),
      Success ''Prediction completed!'', Subheader ''Prediction Results'',
      DataFrame out, Columns 3, Metric 1 ''Total Cases'' (total (summary_counts L)) None Normal,
      Metric 2 ''Fraudulent Cases'' (fraud_count (summary_counts L))
        (Some (fmt_pct (of_nat (fraud_count (summary_counts L)) / of_nat (total (summary_counts L)))))
        Inverse,
      Metric 3 ''Non-Fraudulent Cases'' (nonfraud_count (summary_counts L))
        (Some (fmt_pct (of_nat (nonfraud_count (summary_counts L)) / of_nat (total (summary_counts L)))))
        Normal,
      PlotlyChart (fraud_pie (summary_counts L)),
      DownloadButton ''Download Results as CSV'' (to_csv out) ''fraud_detection_results.csv'' ''text/csv'']"
  using assms by (simp add: run_app_cases file_block_loaded predict_block_ok)

lemma run_app_zero_total:
  assumes "uploaded env = Some file" "read_csv file = Inr df" "n_cols df = n_features"
    "joblib_load env model_path = Inr m" "score m df = Inr (out, L)" "total (summary_counts L) = 0"
  shows "run_app env = start_page @
     [Subheader ''Uploaded Data Preview'', DataFrame (head_frame 5 df),
      Success ''Prediction completed!'', Subheader ''Prediction Results'',
      DataFrame out, Columns 3, Metric 1 ''Total Cases'' 0 None Normal,
      Error ''Prediction error: division by zero'']"
  using assms by (simp add: run_app_cases file_block_loaded predict_block_zero)

lemma run_app_score_error:
  assumes "uploaded env = Some file" "read_csv file = Inr df" "n_cols df = n_features"
    "joblib_load env model_path = Inr m" "score m df = Inl e"
  shows "run_app env = start_page @
     [Subheader ''Uploaded Data Preview'', DataFrame (head_frame 5 df),
      Error (''Prediction error: '' @ exc_str e)]"
  using assms by (simp add: run_app_cases file_block_loaded predict_block_error)

lemma load_model_extends: "\<exists>r q. load_model env p = (r, p @ q)"
  by (auto simp: load_model_def script_simps split: sum.splits)

lemma file_block_preview:
  "read_csv file = Inr df \<Longrightarrow>
   \<exists>r q. file_block env file p = (r, p @ [Subheader ''Uploaded Data Preview'', DataFrame (head_frame 5 df)] @ q)"
proof -
  assume rd: "read_csv file = Inr df"
  let ?p = "p @ [Subheader ''Uploaded Data Preview'', DataFrame (head_frame 5 df)]"
  obtain r q where l: "load_model env ?p = (r, ?p @ q)"
    using load_model_extends by blast
  show ?thesis
  proof (cases r)
    case (Ret m)
    obtain q' where "predict_block m df (?p @ q) = (Ret (), ?p @ q @ q')"
      using predict_block_extends [of m df "?p @ q"] by auto
    then show ?thesis using rd l Ret by (auto simp: file_block_def script_simps)
  qed (use rd l in \<open>auto simp: file_block_def script_simps\<close>)
qed

lemma run_app_preview:
  assumes "uploaded env = Some file" "read_csv file = Inr df"
  shows "\<exists>q. run_app env = start_page @ [Subheader ''Uploaded Data Preview'', DataFrame (head_frame 5 df)] @ q"
  using file_block_preview [OF assms(2), of env start_page] assms(1) by (auto simp: run_app_cases)

subsection \<open>The exported table\<close>

lemma csv_rows_ok_result_table:
  "csv_rows_ok df \<Longrightarrow> csv_rows_ok (result_table df P L)"
  by (auto simp: csv_rows_ok_def result_table_def prediction_row_def label_cell_def csv_cell_ok_def
      list_all_iff set_zip)

subsection \<open>Every page of a run\<close>

text \<open>The seven pages a run can end with, one per path through the script.\<close>

lemma run_app_branches:
  "uploaded env = None \<and> run_app env = start_page @ [Info ''Please upload a CSV file to get started.'']
   \<or> (\<exists>file e. uploaded env = Some file \<and> read_csv file = Inl e \<and>
        run_app env = start_page @ [Error (''File error: '' @ exc_str e)])
   \<or> (\<exists>file df. uploaded env = Some file \<and> read_csv file = Inr df \<and> n_cols df \<noteq> n_features \<and>
        run_app env = start_page @ [Subheader ''Uploaded Data Preview'', DataFrame (head_frame 5 df),
          Error (schema_error (n_cols df))])
   \<or> (\<exists>file df e. uploaded env = Some file \<and> read_csv file = Inr df \<and> n_cols df = n_features \<and>
        joblib_load env model_path = Inl e \<and>
        run_app env = start_page @ [Subheader ''Uploaded Data Preview'', DataFrame (head_frame 5 df),
          Error (''Error loading model: '' @ exc_str e)])
   \<or> (\<exists>file df m e. uploaded env = Some file \<and> read_csv file = Inr df \<and> n_cols df = n_features \<and>
        joblib_load env model_path = Inr m \<and> score m df = Inl e \<and>
        run_app env = start_page @ [Subheader ''Uploaded Data Preview'', DataFrame (head_frame 5 df),
          Error (''Prediction error: '' @ exc_str e)])
   \<or> (\<exists>file df m out L. uploaded env = Some file \<and> read_csv file = Inr df \<and> n_cols df = n_features \<and>
        joblib_load env model_path = Inr m \<and> score m df = Inr (out, L) \<and> total (summary_counts L) = 0 \<and>
        run_app env = start_page @ [Subheader ''Uploaded Data Preview'', DataFrame (head_frame 5 df),
          Success ''Prediction completed!'', Subheader ''Prediction Results'',
          DataFrame out, Columns 3, Metric 1 ''Total Cases'' 0 None Normal,
          Error ''Prediction error: division by zero''])
   \<or> (\<exists>file df m out L. uploaded env = Some file \<and> read_csv file = Inr df \<and> n_cols df = n_features \<and>
        joblib_load env model_path = Inr m \<and> score m df = Inr (out, L) \<and> total (summary_counts L) \<noteq> 0 \<and>
        run_app env = start_page @ [Subheader ''Uploaded Data Preview'', DataFrame (head_frame 5 df),
          Success ''Prediction completed!'', Subheader ''Prediction Results'',
          DataFrame out, Columns 3, Metric 1 ''Total Cases'' (total (summary_counts L)) None Normal,
          Metric 2 ''Fraudulent Cases'' (fraud_count (summary_counts L))
            (Some (fmt_pct (of_nat (fraud_count (summary_counts L)) / of_nat (total (summary_counts L)))))
            Inverse,
          Metric 3 ''Non-Fraudulent Cases'' (nonfraud_count (summary_counts L))
            (Some (fmt_pct (of_nat (nonfraud_count (summary_counts L)) / of_nat (total (summary_counts L)))))
            Normal,
          PlotlyChart (fraud_pie (summary_counts L)),
          DownloadButton ''Download Results as CSV'' (to_csv out) ''fraud_detection_results.csv'' ''text/csv''])"
proof (cases "uploaded env")
  case None
  then show ?thesis by (simp add: run_app_cases script_simps)
next
  case (Some fl)
  show ?thesis
  proof (cases "read_csv fl")
    case (Inl e)
    then show ?thesis using Some by (simp add: run_app_cases file_block_read_error)
  next
    case (Inr df)
    show ?thesis
    proof (cases "n_cols df = n_features")
      case False
      then show ?thesis using Some Inr by (simp add: run_app_cases file_block_schema)
    next
      case True
      show ?thesis
      proof (cases "joblib_load env model_path")
        case (Inl e)
        then show ?thesis using Some Inr True by (simp add: run_app_cases file_block_load_error)
      next
        case (Inr m)
        show ?thesis
        proof (cases "score m df")
          case (Inl e)
          then show ?thesis
            using Some \<open>read_csv fl = Inr df\<close> True Inr
            by (simp add: run_app_cases file_block_loaded predict_block_error)
        next
          case (Inr r)
          obtain out L where r: "r = (out, L)" by (cases r)
          show ?thesis
            using Some \<open>read_csv fl = Inr df\<close> True \<open>joblib_load env model_path = Inr m\<close> Inr r
            by (cases "total (summary_counts L) = 0")
              (simp_all add: run_app_cases file_block_loaded predict_block_zero predict_block_ok)
        qed
      qed
    qed
  qed
qed

subsection \<open>Verdicts\<close>

lemma predict_block_verdict:
  "\<exists>v. filter is_verdict (snd (predict_block m df p)) = filter is_verdict p @ [v]"
  by (auto simp: predict_block_def show_metrics_def download_def pct_def script_simps Let_def
      split: sum.splits prod.splits)

lemma file_block_verdict:
  "\<exists>v. filter is_verdict (snd (file_block env file p)) = filter is_verdict p @ [v]"
proof (cases "read_csv file")
  case (Inr df)
  let ?p = "p @ [Subheader ''Uploaded Data Preview'', DataFrame (head_frame 5 df)]"
  show ?thesis
  proof (cases "n_cols df \<noteq> n_features \<or> (\<exists>e. joblib_load env model_path = Inl e)")
    case True
    then show ?thesis
      using Inr by (auto simp: file_block_def load_model_def script_simps)
  next
    case False
    then obtain m where "joblib_load env model_path = Inr m" "n_cols df = n_features"
      by (cases "joblib_load env model_path") auto
    moreover obtain v where "filter is_verdict (snd (predict_block m df ?p)) = filter is_verdict ?p @ [v]"
      using predict_block_verdict by blast
    ultimately show ?thesis
      using Inr by (simp add: file_block_loaded)
  qed
qed (auto simp: file_block_def script_simps)

lemma start_page_no_verdict: "filter is_verdict start_page = []"
  by (simp add: start_page_def)

text \<open>Everything needed to run the script symbolically, definition by definition.\<close>

lemmas run_app_unfold = run_app_cases file_block_def load_model_def predict_block_def
  show_metrics_def pct_def download_def script_simps Let_def n_features_def

end
