(* ===== verification/Spec2Isabelle.thy ===== *)
theory Spec2Isabelle
  imports App
begin

text \<open>
  Verification development of the Fraud Detection App (\<^verbatim>\<open>src/app.py\<close>), a
  Streamlit script that reads an uploaded CSV file, checks that it has 30 feature
  columns, loads a trained classifier from \<^verbatim>\<open>best_model.joblib\<close>, scores every
  row, and shows and exports the scores. The script is one top-level run, from
  top to bottom; Streamlit renders the calls it makes as a page.

  \<^bold>\<open>How the script is modelled.\<close> A run is a function from the page rendered so
  far (a list of \<open>element\<close>s, one per \<open>st.*\<close> call) to an outcome and the
  extended page: \<open>'a script = page \<Rightarrow> 'a outcome \<times> page\<close>. The outcome is
  \<open>Ret\<close> a value, \<open>Raise\<close> a Python exception, or \<open>Stop\<close> for \<open>st.stop()\<close>.
  \<open>try_except\<close> catches \<open>Raise\<close> but not \<open>Stop\<close>, because Streamlit's stop
  exception is not an \<open>Exception\<close>. The outside world is the record \<open>env\<close>:
  the uploaded bytes, or none, and what \<open>joblib.load\<close> returns for a path.
  \<open>run_app env\<close> is the page one run shows. Nothing loops, so every
  definition is total by structural recursion, and no fuel or bound is needed.

  \<^bold>\<open>Theories, in import order.\<close>
  \<^item> \<open>Prelude\<close>: the named collections \<open>script_simps\<close>, \<open>frame_simps\<close> and
    \<open>csv_simps\<close>, plus list lemmas (\<open>count_list\<close>, \<open>those\<close>) and sum-type lemmas.
  \<^item> \<open>Decimal\<close>: the numbers the script handles, as exact decimals
    \<open>Dec m e = m / 10^e\<close>; decimal printing (\<open>show_decimal\<close>) and parsing
    (\<open>parse_decimal\<close>); the percentage format \<open>f"{x:.1%}"\<close> of lines
    106-107 (\<open>fmt_pct\<close>, round half to even). The parser accepts the numeric
    syntax of pandas' C reader: sign, point, exponent and surrounding blanks.
    Parsing inverts printing (\<open>decimal_roundtrip\<close>, used for the export), and
    the rounding error of the percentage is bounded.
  \<^item> \<open>Frame\<close>: pandas data frames as a record of column labels and rows of
    cells, and the pandas operations the script calls. A cell is a number
    (\<open>Num\<close>), \<open>NaN\<close>, or a string (\<open>Text\<close>).
    \<open>df.head()\<close> (line 73) is \<open>head_frame\<close>,
    \<open>pd.DataFrame(probabilities, columns=...)\<close> (lines 88-90) is
    \<open>frame_of_array\<close>, \<open>results["Prediction"] = ...\<close> (line 91) is
    \<open>set_column\<close>, and \<open>pd.concat(..., axis=1)\<close> (line 93) is
    \<open>concat_axis1\<close>, which pads the shorter frame with NaN rows. Also the
    exception type \<open>exc\<close> with \<open>str(e)\<close> as \<open>exc_str\<close>. Every operation keeps
    frames rectangular (\<open>wf_frame\<close>).
  \<^item> \<open>Csv\<close>: \<open>pd.read_csv\<close> (line 71) as \<open>read_csv\<close> and
    \<open>output.to_csv(index=False)\<close> (line 120) as \<open>to_csv\<close>. Both are pandas
    library code with default arguments, modelled from pandas' behaviour
    where it differs from the spec. The first non-blank line is the header.
    Blank lines are skipped but counted in error line numbers. A short line
    is filled with NaN, and a long line is the tokenizer's \<open>ParserError\<close>.
    pandas' default NA markers are NaN, numbers follow the C reader's syntax,
    and any other field stays text. The lemmas show that the reader yields
    rectangular frames whose labels and text fields the writer can print, and
    that reading back the writer's output gives the frame again. The export
    claim rests on these lemmas.
  \<^item> \<open>Streamlit\<close>: the page elements and the script combinators described
    above.
  \<^item> \<open>Oracle\<close>: the classifier as an opaque record of \<open>predict_proba\<close> and
    \<open>predict\<close> (lines 86-87), either of which may raise, and the environment.
    The spec's contract for a well-behaved model is the predicate
    \<open>oracle_contract\<close>. It is a hypothesis of the claims that need it, never an
    axiom.
  \<^item> \<open>Composer\<close>: lines 86-102. \<open>score\<close> builds the output frame; \<open>summary_counts\<close>
    computes the three counts. Their abstract counterpart is \<open>result_table\<close>,
    the spec's Result Table. The lemmas show that \<open>score\<close> refines it
    (\<open>score_refines_result_table\<close>) and that the counts are consistent. They
    also show that labels agree with probabilities under the contract
    (\<open>label_consistency\<close>), what a short answer does
    (\<open>score_pads_short_answers\<close>) and which answers raise
    (\<open>score_value_errors\<close>).
  \<^item> \<open>App\<close>: the script itself, one definition per block in source order:
    \<open>app_css\<close> (lines 8-47), \<open>app_chrome\<close> (7-65), \<open>file_uploader\<close> (67),
    \<open>file_block\<close> (69-130), \<open>load_model\<close> (78-82), \<open>predict_block\<close> (84-128),
    \<open>show_metrics\<close> (104-107), \<open>fraud_pie\<close> (110-116), \<open>download\<close> (120-126),
    and \<open>app\<close>/\<open>run_app\<close> for the whole run with its \<open>else\<close> branch (131-132).
    The lemmas give the page of each branch. \<open>run_app_branches\<close> lists the
    seven pages a run can end with, in the style of a big-step semantics.
    Further lemmas show that every block adds exactly one verdict element
    (\<open>is_verdict\<close>). \<open>run_app_unfold\<close> bundles the definitions for symbolic
    runs.
  \<^item> This theory: the claims about whole runs. One group gives the page of
    each branch: a schema mismatch, success, a model that cannot be loaded,
    a failing model, a zero total, a file that cannot be read, and no upload.
    In a successful run the downloaded file reads back as the result table
    (\<open>download_roundtrip\<close>). Every run shows exactly one verdict, meaning
    the upload prompt, one error banner or the download button
    (\<open>run_app_one_verdict\<close>). The download is offered exactly when every
    stage succeeded (\<open>download_only_after_scoring\<close>). The pie chart shows
    the same counts as the metrics (\<open>pie_matches_metrics\<close>). The witnesses
    run the script on the spec's two-row example and on small failing inputs.

  \<^bold>\<open>Simplifications.\<close> Emoji in labels are dropped (\<open>"Prediction completed!"\<close>
  for \<open>"\<dots> Prediction completed!"\<close>) and the CSS of lines 8-47 is kept with
  whitespace collapsed. These strings are not compared by any claim except
  as constants. \<open>use_container_width\<close>, \<open>st.spinner\<close> and the \<open>utf-8\<close>
  encoding leave no trace on the page model. Model outputs are exact
  decimals, not floats, so percentages are computed exactly before rounding.
  The two differ only at near-ties of the \<open>.1%\<close> format.

  \<^bold>\<open>Not modelled.\<close> These are the Streamlit runtime (reruns, widget state,
  rendering), Plotly's drawing of the chart (it is kept as data: labels,
  counts, colours, title), and the internals of the scikit-learn model. Some
  of the pandas CSV dialect is not modelled: quoting, CRLF line ends,
  infinities, and implicit index columns. Also not modelled are the renaming
  of duplicate or empty labels (\<open>a.1\<close>, \<open>Unnamed: 0\<close>) and the printing of
  integer columns as floats once NaN padding changes their dtype. The export
  claim therefore speaks of the development's reader, which keeps duplicate
  labels as they are.
\<close>

subsection \<open>Concrete runs\<close>

text \<open>
  Inputs for the witnesses: the spec's 2-row upload of 30 columns (section 8)
  scored by a model that answers \<open>[(0.9, 0.1, 0), (0.2, 0.8, 1)]\<close>, a model
  file that is missing, and small inputs for the other branches.
\<close>

definition demo_text :: string where
  "demo_text =
     ''V1,V2,V3,V4,V5,V6,V7,V8,V9,V10,V11,V12,V13,V14,V15,V16,V17,V18,V19,V20,''
     @ ''V21,V22,V23,V24,V25,V26,V27,V28,V29,V30\<newline>''
     @ ''37,74,10,47,84,20,57,94,30,67,3,40,77,13,50,''
     @ ''87,23,60,97,33,70,6,43,80,16,53,90,26,63,100\<newline>''
     @ ''1.3,2.6,3.9,5.2,6.5,7.8,9.1,10.4,11.7,13.0,14.3,15.6,16.9,18.2,19.5,''
     @ ''20.8,22.1,23.4,24.7,26.0,27.3,28.6,29.9,31.2,32.5,33.8,35.1,36.4,37.7,39.0\<newline>''"

definition demo_frame :: frame where
  "demo_frame =
     \<lparr>columns = map (\<lambda>i. ''V'' @ show_nat i) [1..<31],
      rows = [map (\<lambda>i. Num (Dec (int (i * 37 mod 101)) 0)) [1..<31],
              map (\<lambda>i. Num (Dec (int (i * 13)) 1)) [1..<31]]\<rparr>"

definition demo_model :: model where
  "demo_model =
     \<lparr>predict_proba = (\<lambda>_. Inr [[Dec 9 1, Dec 1 1], [Dec 2 1, Dec 8 1]]),
      predict = (\<lambda>_. Inr [0, 1])\<rparr>"

definition no_model :: "string \<Rightarrow> exc + model" where
  "no_model p = Inl (FileNotFoundError p)"

definition demo_env :: env where
  "demo_env = \<lparr>uploaded = Some demo_text,
     joblib_load = (\<lambda>p. if p = model_path then Inr demo_model else no_model p)\<rparr>"

definition narrow_env :: env where
  "narrow_env = \<lparr>uploaded = Some ''a,b\<newline>1,2\<newline>'', joblib_load = no_model\<rparr>"

definition missing_env :: env where
  "missing_env = \<lparr>uploaded = Some demo_text, joblib_load = no_model\<rparr>"

definition failing_model :: model where
  "failing_model =
     \<lparr>predict_proba = (\<lambda>_. Inl (ValueError ''X has 30 features, but the model is expecting 31'')),
      predict = (\<lambda>_. Inl (ValueError ''X has 30 features, but the model is expecting 31''))\<rparr>"

definition failing_env :: env where
  "failing_env = \<lparr>uploaded = Some demo_text, joblib_load = (\<lambda>_. Inr failing_model)\<rparr>"

text \<open>A model whose labels are not 0 and 1 (here \<open>-1\<close> for both rows).\<close>

definition odd_label_model :: model where
  "odd_label_model =
     \<lparr>predict_proba = (\<lambda>_. Inr [[Dec 9 1, Dec 1 1], [Dec 2 1, Dec 8 1]]),
      predict = (\<lambda>_. Inr [-1, -1])\<rparr>"

definition odd_label_env :: env where
  "odd_label_env = \<lparr>uploaded = Some demo_text, joblib_load = (\<lambda>_. Inr odd_label_model)\<rparr>"

definition empty_env :: env where
  "empty_env = \<lparr>uploaded = Some [], joblib_load = no_model\<rparr>"

definition idle_env :: env where
  "idle_env = \<lparr>uploaded = None, joblib_load = no_model\<rparr>"

subsection \<open>The column check\<close>

text \<open>
  C1. An upload whose column count is not 30 is rejected: after the preview the
  page shows the one error banner naming the count found, and nothing else; the
  model is not loaded and nothing is scored (the page does not depend on the
  model file at all).
\<close>

theorem schema_mismatch_page:
  assumes "uploaded env = Some file" "read_csv file = Inr df" "n_cols df \<noteq> 30"
  shows "run_app env = start_page @
     [Subheader ''Uploaded Data Preview'', DataFrame (head_frame 5 df), Error (schema_error (n_cols df))]"
  using assms by (simp add: run_app_unfold)

theorem schema_mismatch_page_witness:
  "uploaded narrow_env = Some ''a,b\<newline>1,2\<newline>'' \<and>
   read_csv ''a,b\<newline>1,2\<newline>'' = Inr \<lparr>columns = [''a'', ''b''], rows = [[Num (Dec 1 0), Num (Dec 2 0)]]\<rparr> \<and>
   n_cols \<lparr>columns = [''a'', ''b''], rows = [[Num (Dec 1 0), Num (Dec 2 0)]]\<rparr> \<noteq> 30 \<and>
   run_app narrow_env = start_page @
     [Subheader ''Uploaded Data Preview'',
      DataFrame (head_frame 5 \<lparr>columns = [''a'', ''b''], rows = [[Num (Dec 1 0), Num (Dec 2 0)]]\<rparr>),
      Error (schema_error 2)]"
proof -
  have u: "uploaded narrow_env = Some ''a,b\<newline>1,2\<newline>''"
    by (simp add: narrow_env_def)
  have r: "read_csv ''a,b\<newline>1,2\<newline>'' = Inr \<lparr>columns = [''a'', ''b''], rows = [[Num (Dec 1 0), Num (Dec 2 0)]]\<rparr>"
    by code_simp
  have n: "n_cols \<lparr>columns = [''a'', ''b''], rows = [[Num (Dec 1 0), Num (Dec 2 0)]]\<rparr> \<noteq> 30"
    by (simp add: n_cols_def)
  show ?thesis
    using u r n schema_mismatch_page [OF u r n] by (simp add: n_cols_def numeral_2_eq_2)
qed

subsection \<open>Scoring\<close>

text \<open>
  C2. When the upload has 30 columns, the model loads and answers one
  probability pair and one label per row, the page shows the preview, the
  success message, the result table of the spec (every input row followed by its
  two probabilities and its label, in input order), the three metrics with their
  percentages, the pie chart of the two counts, and a download button carrying
  the result table as CSV, in this order (here for a non-zero total).
\<close>

theorem scoring_page:
  assumes "uploaded env = Some file" "read_csv file = Inr df" "n_cols df = 30"
    "joblib_load env model_path = Inr m" "oracle_answers m df P L" "total (summary_counts L) \<noteq> 0"
  shows "run_app env = start_page @
     [Subheader ''Uploaded Data Preview'', DataFrame (head_frame 5 df),
      Success ''Prediction completed!'', Subheader ''Prediction Results'',
      DataFrame (result_table df P L), Columns 3,
      Metric 1 ''Total Cases'' (total (summary_counts L)) None Normal,
      Metric 2 ''Fraudulent Cases'' (fraud_count (summary_counts L))
        (Some (fmt_pct (of_nat (fraud_count (summary_counts L)) / of_nat (total (summary_counts L)))))
        Inverse,
      Metric 3 ''Non-Fraudulent Cases'' (nonfraud_count (summary_counts L))
        (Some (fmt_pct (of_nat (nonfraud_count (summary_counts L)) / of_nat (total (summary_counts L)))))
        Normal,
      PlotlyChart (fraud_pie (summary_counts L)),
      DownloadButton ''Download Results as CSV'' (to_csv (result_table df P L))
        ''fraud_detection_results.csv'' ''text/csv'']"
  using assms score_answers [OF assms(5)] by (simp add: run_app_unfold)

theorem scoring_page_witness:
  "uploaded demo_env = Some demo_text \<and> read_csv demo_text = Inr demo_frame \<and> n_cols demo_frame = 30 \<and>
   joblib_load demo_env model_path = Inr demo_model \<and>
   oracle_answers demo_model demo_frame [[Dec 9 1, Dec 1 1], [Dec 2 1, Dec 8 1]] [0, 1] \<and>
   total (summary_counts [0, 1]) \<noteq> 0 \<and>
   run_app demo_env = start_page @
     [Subheader ''Uploaded Data Preview'', DataFrame (head_frame 5 demo_frame),
      Success ''Prediction completed!'', Subheader ''Prediction Results'',
      DataFrame (result_table demo_frame [[Dec 9 1, Dec 1 1], [Dec 2 1, Dec 8 1]] [0, 1]), Columns 3,
      Metric 1 ''Total Cases'' (total (summary_counts [0, 1])) None Normal,
      Metric 2 ''Fraudulent Cases'' (fraud_count (summary_counts [0, 1]))
        (Some (fmt_pct (of_nat (fraud_count (summary_counts [0, 1])) / of_nat (total (summary_counts [0, 1])))))
        Inverse,
      Metric 3 ''Non-Fraudulent Cases'' (nonfraud_count (summary_counts [0, 1]))
        (Some (fmt_pct (of_nat (nonfraud_count (summary_counts [0, 1])) / of_nat (total (summary_counts [0, 1])))))
        Normal,
      PlotlyChart (fraud_pie (summary_counts [0, 1])),
      DownloadButton ''Download Results as CSV''
        (to_csv (result_table demo_frame [[Dec 9 1, Dec 1 1], [Dec 2 1, Dec 8 1]] [0, 1]))
        ''fraud_detection_results.csv'' ''text/csv'']"
proof -
  have u: "uploaded demo_env = Some demo_text"
    by (simp add: demo_env_def)
  have r: "read_csv demo_text = Inr demo_frame"
    by code_simp
  have n: "n_cols demo_frame = 30"
    by code_simp
  have l: "joblib_load demo_env model_path = Inr demo_model"
    by (simp add: demo_env_def)
  have o: "oracle_answers demo_model demo_frame [[Dec 9 1, Dec 1 1], [Dec 2 1, Dec 8 1]] [0, 1]"
    by (simp add: oracle_answers_def demo_model_def demo_frame_def n_rows_def)
  have t: "total (summary_counts [0, 1]) \<noteq> 0"
    by (simp add: summary_counts_def)
  show ?thesis
    using u r n l o t scoring_page [OF u r n l o t] by blast
qed

subsection \<open>Export\<close>

text \<open>
  C5. The downloaded file is the result table: when scoring succeeds, the page
  offers a download whose CSV text reads back through the Tabular Loader as
  exactly the result table, with the uploaded columns plus three and the
  uploaded number of rows.
\<close>

theorem download_roundtrip:
  assumes "uploaded env = Some file" "read_csv file = Inr df" "n_cols df = 30"
    "joblib_load env model_path = Inr m" "oracle_answers m df P L" "total (summary_counts L) \<noteq> 0"
  shows "\<exists>d. DownloadButton ''Download Results as CSV'' d ''fraud_detection_results.csv'' ''text/csv''
              \<in> set (run_app env) \<and>
            read_csv d = Inr (result_table df P L) \<and>
            n_cols (result_table df P L) = n_cols df + 3 \<and> n_rows (result_table df P L) = n_rows df"
proof -
  have lens: "length P = n_rows df" "length L = n_rows df" and w: "list_all (\<lambda>p. length p = 2) P"
    using assms(5) by (simp_all add: oracle_answers_def)
  have page: "DownloadButton ''Download Results as CSV'' (to_csv (result_table df P L))
      ''fraud_detection_results.csv'' ''text/csv'' \<in> set (run_app env)"
    using assms score_answers [OF assms(5)] by (simp add: run_app_unfold)
  have df: "wf_frame df" "csv_rows_ok df"
    "list_all (\<lambda>n. CHR '','' \<notin> set n \<and> CHR ''\<newline>'' \<notin> set n) (columns df)"
    using read_csv_frame [OF assms(2)] by simp_all
  have wf: "wf_frame (result_table df P L)"
    using wf_result_table [OF df(1) lens w] .
  have ok: "csv_names_ok (columns (result_table df P L))"
    using df(3) by (simp add: csv_names_ok_def result_table_def proba_columns_def)
  have "read_csv (to_csv (result_table df P L)) = Inr (result_table df P L)"
    using read_csv_to_csv_frame [OF wf ok csv_rows_ok_result_table [OF df(2)]] .
  moreover have "n_cols (result_table df P L) = n_cols df + 3"
    by (simp add: result_table_def n_cols_def proba_columns_def)
  ultimately show ?thesis
    using page n_rows_result_table [OF lens] by blast
qed

theorem download_roundtrip_witness:
  "uploaded demo_env = Some demo_text \<and> read_csv demo_text = Inr demo_frame \<and> n_cols demo_frame = 30 \<and>
   joblib_load demo_env model_path = Inr demo_model \<and>
   oracle_answers demo_model demo_frame [[Dec 9 1, Dec 1 1], [Dec 2 1, Dec 8 1]] [0, 1] \<and>
   total (summary_counts [0, 1]) \<noteq> 0 \<and>
   (\<exists>d. DownloadButton ''Download Results as CSV'' d ''fraud_detection_results.csv'' ''text/csv''
          \<in> set (run_app demo_env) \<and>
        read_csv d = Inr (result_table demo_frame [[Dec 9 1, Dec 1 1], [Dec 2 1, Dec 8 1]] [0, 1]) \<and>
        n_cols (result_table demo_frame [[Dec 9 1, Dec 1 1], [Dec 2 1, Dec 8 1]] [0, 1]) = n_cols demo_frame + 3 \<and>
        n_rows (result_table demo_frame [[Dec 9 1, Dec 1 1], [Dec 2 1, Dec 8 1]] [0, 1]) = n_rows demo_frame)"
proof -
  have u: "uploaded demo_env = Some demo_text"
    by (simp add: demo_env_def)
  have r: "read_csv demo_text = Inr demo_frame"
    by code_simp
  have n: "n_cols demo_frame = 30"
    by code_simp
  have l: "joblib_load demo_env model_path = Inr demo_model"
    by (simp add: demo_env_def)
  have o: "oracle_answers demo_model demo_frame [[Dec 9 1, Dec 1 1], [Dec 2 1, Dec 8 1]] [0, 1]"
    by (simp add: oracle_answers_def demo_model_def demo_frame_def n_rows_def)
  have t: "total (summary_counts [0, 1]) \<noteq> 0"
    by (simp add: summary_counts_def)
  show ?thesis
    using u r n l o t download_roundtrip [OF u r n l o t] by blast
qed

subsection \<open>Failures\<close>

text \<open>
  C6. A model file that cannot be loaded halts the run: after the preview the page
  shows the load error verbatim and nothing more, and the script stops before any
  scoring.
\<close>

theorem load_error_page:
  assumes "uploaded env = Some file" "read_csv file = Inr df" "n_cols df = 30"
    "joblib_load env model_path = Inl e"
  shows "run_app env = start_page @
     [Subheader ''Uploaded Data Preview'', DataFrame (head_frame 5 df),
      Error (''Error loading model: '' @ exc_str e)]"
  using assms by (simp add: run_app_unfold)

theorem load_error_page_witness:
  "uploaded missing_env = Some demo_text \<and> read_csv demo_text = Inr demo_frame \<and> n_cols demo_frame = 30 \<and>
   joblib_load missing_env model_path = Inl (FileNotFoundError model_path) \<and>
   run_app missing_env = start_page @
     [Subheader ''Uploaded Data Preview'', DataFrame (head_frame 5 demo_frame),
      Error (''Error loading model: '' @ exc_str (FileNotFoundError model_path))]"
proof -
  have u: "uploaded missing_env = Some demo_text"
    by (simp add: missing_env_def)
  have r: "read_csv demo_text = Inr demo_frame"
    by code_simp
  have n: "n_cols demo_frame = 30"
    by code_simp
  have l: "joblib_load missing_env model_path = Inl (FileNotFoundError model_path)"
    by (simp add: missing_env_def no_model_def)
  show ?thesis
    using u r n l load_error_page [OF u r n l] by blast
qed

text \<open>
  C10. Any exception raised while scoring (by the model or by pandas) is shown
  verbatim as the prediction error after the preview, and nothing of the results
  is shown: no success message, no table, no metrics, no download.
\<close>

theorem prediction_error_page:
  assumes "uploaded env = Some file" "read_csv file = Inr df" "n_cols df = 30"
    "joblib_load env model_path = Inr m" "score m df = Inl e"
  shows "run_app env = start_page @
     [Subheader ''Uploaded Data Preview'', DataFrame (head_frame 5 df),
      Error (''Prediction error: '' @ exc_str e)]"
  using run_app_score_error [OF assms(1,2) _ assms(4,5)] assms(3) by (simp add: n_features_def)

theorem prediction_error_page_witness:
  "uploaded failing_env = Some demo_text \<and> read_csv demo_text = Inr demo_frame \<and> n_cols demo_frame = 30 \<and>
   joblib_load failing_env model_path = Inr failing_model \<and>
   score failing_model demo_frame = Inl (ValueError ''X has 30 features, but the model is expecting 31'') \<and>
   run_app failing_env = start_page @
     [Subheader ''Uploaded Data Preview'', DataFrame (head_frame 5 demo_frame),
      Error (''Prediction error: '' @ exc_str (ValueError ''X has 30 features, but the model is expecting 31''))]"
proof -
  have u: "uploaded failing_env = Some demo_text"
    by (simp add: failing_env_def)
  have r: "read_csv demo_text = Inr demo_frame"
    by code_simp
  have n: "n_cols demo_frame = 30"
    by code_simp
  have l: "joblib_load failing_env model_path = Inr failing_model"
    by (simp add: failing_env_def)
  have s: "score failing_model demo_frame = Inl (ValueError ''X has 30 features, but the model is expecting 31'')"
    by (simp add: score_def failing_model_def)
  show ?thesis
    using u r n l s prediction_error_page [OF u r n l s] by blast
qed

text \<open>
  C12. When no label is 0 or 1 (a model trained on other labels), the total is 0
  and the percentage raises \<open>ZeroDivisionError\<close> after the success message, the
  result table and the first metric are already on the page: the page then shows
  a completed prediction and a prediction error together.
\<close>

theorem zero_total_partial_page:
  assumes "uploaded env = Some file" "read_csv file = Inr df" "n_cols df = 30"
    "joblib_load env model_path = Inr m" "oracle_answers m df P L" "total (summary_counts L) = 0"
  shows "run_app env = start_page @
     [Subheader ''Uploaded Data Preview'', DataFrame (head_frame 5 df),
      Success ''Prediction completed!'', Subheader ''Prediction Results'',
      DataFrame (result_table df P L), Columns 3, Metric 1 ''Total Cases'' 0 None Normal,
      Error ''Prediction error: division by zero'']"
  using run_app_zero_total [OF assms(1,2) _ assms(4) score_answers [OF assms(5)] assms(6)] assms(3)
  by (simp add: n_features_def)

theorem zero_total_partial_page_witness:
  "uploaded odd_label_env = Some demo_text \<and> read_csv demo_text = Inr demo_frame \<and> n_cols demo_frame = 30 \<and>
   joblib_load odd_label_env model_path = Inr odd_label_model \<and>
   oracle_answers odd_label_model demo_frame [[Dec 9 1, Dec 1 1], [Dec 2 1, Dec 8 1]] [-1, -1] \<and>
   total (summary_counts [-1, -1]) = 0 \<and>
   run_app odd_label_env = start_page @
     [Subheader ''Uploaded Data Preview'', DataFrame (head_frame 5 demo_frame),
      Success ''Prediction completed!'', Subheader ''Prediction Results'',
      DataFrame (result_table demo_frame [[Dec 9 1, Dec 1 1], [Dec 2 1, Dec 8 1]] [-1, -1]), Columns 3,
      Metric 1 ''Total Cases'' 0 None Normal, Error ''Prediction error: division by zero'']"
proof -
  have u: "uploaded odd_label_env = Some demo_text"
    by (simp add: odd_label_env_def)
  have r: "read_csv demo_text = Inr demo_frame"
    by code_simp
  have n: "n_cols demo_frame = 30"
    by code_simp
  have l: "joblib_load odd_label_env model_path = Inr odd_label_model"
    by (simp add: odd_label_env_def)
  have o: "oracle_answers odd_label_model demo_frame [[Dec 9 1, Dec 1 1], [Dec 2 1, Dec 8 1]] [-1, -1]"
    by (simp add: oracle_answers_def odd_label_model_def demo_frame_def n_rows_def)
  have t: "total (summary_counts [-1, -1]) = 0"
    by (simp add: summary_counts_def)
  show ?thesis
    using u r n l o t zero_total_partial_page [OF u r n l o t] by blast
qed

text \<open>
  C13. An upload that the loader rejects shows the loader's error verbatim as the
  file error, and nothing else: no preview, no scoring.
\<close>

theorem file_error_page:
  assumes "uploaded env = Some file" "read_csv file = Inl e"
  shows "run_app env = start_page @ [Error (''File error: '' @ exc_str e)]"
  using assms by (simp add: run_app_cases file_block_read_error)

theorem file_error_page_witness:
  "uploaded empty_env = Some [] \<and> read_csv [] = Inl EmptyDataError \<and>
   run_app empty_env = start_page @ [Error (''File error: '' @ exc_str EmptyDataError)]"
proof -
  have u: "uploaded empty_env = Some []"
    by (simp add: empty_env_def)
  have r: "read_csv [] = Inl EmptyDataError"
    by (simp add: read_csv_def)
  show ?thesis
    using u r file_error_page [OF u r] by blast
qed

text \<open>
  C14. Before any upload the page shows the chrome, the uploader and the
  invitation to upload, and nothing else.
\<close>

theorem no_upload_page:
  "uploaded env = None \<Longrightarrow>
   run_app env = start_page @ [Info ''Please upload a CSV file to get started.'']"
  by (simp add: run_app_cases emit_def)

theorem no_upload_page_witness:
  "uploaded idle_env = None \<and>
   run_app idle_env = start_page @ [Info ''Please upload a CSV file to get started.'']"
proof -
  have u: "uploaded idle_env = None"
    by (simp add: idle_env_def)
  show ?thesis
    using u no_upload_page [OF u] by blast
qed

subsection \<open>Properties of every run\<close>

text \<open>
  C7. Every run ends with exactly one verdict: the page holds exactly one
  element among the upload prompt, the error banners and the download button.
  No run shows two errors, an error beside the download, or no outcome at all.
\<close>

theorem run_app_one_verdict: "\<exists>v. filter is_verdict (run_app env) = [v]"
  using file_block_verdict [of env _ start_page] start_page_no_verdict
  by (auto simp: run_app_cases script_simps split: option.splits)

text \<open>
  C8. The results are offered for download exactly when every stage succeeded:
  the upload was read, it has 30 columns, the model loaded, scoring returned,
  and the total is not 0. The button then carries the CSV text of the scored
  output under the fixed label, file name and MIME type. No failure path
  renders a download.
\<close>

theorem download_only_after_scoring:
  "DownloadButton l d n t \<in> set (run_app env) \<longleftrightarrow>
   (\<exists>file df m out L. uploaded env = Some file \<and> read_csv file = Inr df \<and> n_cols df = n_features \<and>
      joblib_load env model_path = Inr m \<and> score m df = Inr (out, L) \<and> total (summary_counts L) \<noteq> 0 \<and>
      l = ''Download Results as CSV'' \<and> d = to_csv out \<and> n = ''fraud_detection_results.csv'' \<and>
      t = ''text/csv'')"
  using run_app_branches [of env] by (auto simp: start_page_def)

theorem download_only_after_scoring_witness:
  "DownloadButton ''Download Results as CSV''
     (to_csv (result_table demo_frame [[Dec 9 1, Dec 1 1], [Dec 2 1, Dec 8 1]] [0, 1]))
     ''fraud_detection_results.csv'' ''text/csv'' \<in> set (run_app demo_env)"
proof -
  have u: "uploaded demo_env = Some demo_text"
    by (simp add: demo_env_def)
  have r: "read_csv demo_text = Inr demo_frame"
    by code_simp
  have n: "n_cols demo_frame = n_features"
    by code_simp
  have l: "joblib_load demo_env model_path = Inr demo_model"
    by (simp add: demo_env_def)
  have o: "oracle_answers demo_model demo_frame [[Dec 9 1, Dec 1 1], [Dec 2 1, Dec 8 1]] [0, 1]"
    by (simp add: oracle_answers_def demo_model_def demo_frame_def n_rows_def)
  have t: "total (summary_counts [0, 1]) \<noteq> 0"
    by (simp add: summary_counts_def)
  show ?thesis
    unfolding download_only_after_scoring
    using u r n l score_answers [OF o] t by blast
qed

text \<open>
  C9. The pie chart agrees with the metrics: whenever a run draws the chart, its
  two slices are the fraud and non-fraud counts, their sum is positive and is
  the displayed total, and the two metrics show the same counts with their
  percentages of that total.
\<close>

theorem pie_matches_metrics:
  "PlotlyChart (Pie vs cs title) \<in> set (run_app env) \<Longrightarrow>
   \<exists>a b. vs = [(''Fraudulent'', a), (''Non-Fraudulent'', b)] \<and> 0 < a + b \<and>
     Metric 1 ''Total Cases'' (a + b) None Normal \<in> set (run_app env) \<and>
     Metric 2 ''Fraudulent Cases'' a (Some (fmt_pct (of_nat a / of_nat (a + b)))) Inverse \<in> set (run_app env) \<and>
     Metric 3 ''Non-Fraudulent Cases'' b (Some (fmt_pct (of_nat b / of_nat (a + b)))) Normal \<in> set (run_app env)"
  using run_app_branches [of env] by (auto simp: start_page_def fraud_pie_def summary_counts_def Let_def)

theorem pie_matches_metrics_witness:
  "PlotlyChart (Pie [(''Fraudulent'', 1), (''Non-Fraudulent'', 1)]
     [(''Fraudulent'', ''#FF6361''), (''Non-Fraudulent'', ''#58508D'')] ''Fraud vs Non-Fraud Cases'')
     \<in> set (run_app demo_env) \<and>
   Metric 2 ''Fraudulent Cases'' 1 (Some ''50.0%'') Inverse \<in> set (run_app demo_env)"
proof -
  have c: "PlotlyChart (Pie [(''Fraudulent'', 1), (''Non-Fraudulent'', 1)]
     [(''Fraudulent'', ''#FF6361''), (''Non-Fraudulent'', ''#58508D'')] ''Fraud vs Non-Fraud Cases'')
     \<in> set (run_app demo_env)"
    by code_simp
  have p: "fmt_pct (1 / 2) = ''50.0%''"
    by code_simp
  show ?thesis
    using c pie_matches_metrics [OF c] p by auto
qed

end
